theory Spec2Isabelle
  imports Complex_Main
begin

section \<open>The tile map (src/core/engine/Map.ts)\<close>

text \<open>
  A JavaScript \<^verbatim>\<open>number\<close> is modelled as \<^typ>\<open>int\<close> where the program only
  ever holds integers there (type codes, grid indices, pixel coordinates, the colour
  channels read from a pixel or a colour string), as \<^typ>\<open>nat\<close> for sizes and counts,
  and as \<^typ>\<open>real\<close> elsewhere (positions, angles, distances, the configured fog
  colour).  Floating-point rounding, infinities and NaN are not modelled.  An optional field (\<^verbatim>\<open>texture?: string\<close>) is an \<^typ>\<open>'a option\<close>,
  \<^verbatim>\<open>undefined\<close> being \<^const>\<open>None\<close>.
\<close>

record Tile =
  tile_type :: int
  tile_name :: string
  tile_texture :: "string option"
  tile_height :: "real option"
  tile_isSolid :: bool

record TileDefinition =
  def_type :: int
  def_name :: string
  def_texture :: string
  def_isSolid :: bool
  def_height :: "real option"

text \<open>
  The pixel buffer of a decoded image (the browser's \<^verbatim>\<open>ImageData\<close>): four bytes
  (red, green, blue, alpha) per pixel, row by row.
\<close>

record ImageData =
  img_width :: nat
  img_height :: nat
  img_data :: "nat list"

text \<open>Of \<^verbatim>\<open>TextureManager\<close>, the dictionary that \<^verbatim>\<open>getTextureColor\<close> reads.\<close>

record TextureManager =
  textureData :: "string \<rightharpoonup> ImageData"

record GameMap =
  tiles :: "Tile list list"
  floorTexture :: string
  ceilingTexture :: string
  tileDefinitions :: "int \<rightharpoonup> TileDefinition"
  textureManager :: TextureManager

text \<open>
  \<^verbatim>\<open>createTile\<close> returns the registered definition object itself where a
  \<^verbatim>\<open>Tile\<close> is expected (TypeScript's structural typing): the same fields, the
  texture now read through the optional field.
\<close>

definition tile_of_definition :: "TileDefinition \<Rightarrow> Tile" where
  "tile_of_definition d =
     \<lparr>tile_type = def_type d, tile_name = def_name d, tile_texture = Some (def_texture d),
      tile_height = def_height d, tile_isSolid = def_isSolid d\<rparr>"

text \<open>The object literal \<^verbatim>\<open>createTile\<close> returns when no definition is registered.\<close>

definition empty_tile :: Tile where
  "empty_tile =
     \<lparr>tile_type = 0, tile_name = ''empty'', tile_texture = Some ''empty'',
      tile_height = None, tile_isSolid = False\<rparr>"

text \<open>
  \<^verbatim>\<open>tileDefinitions: { [key: number]: TileDefinition }\<close> is a dictionary from
  type codes to definitions.  A registered definition is an object, hence truthy, so
  \<^verbatim>\<open>!definition\<close> holds exactly when the key is absent.
\<close>

definition createTile :: "(int \<rightharpoonup> TileDefinition) \<Rightarrow> int \<Rightarrow> Tile" where
  "createTile defs type =
     (case defs type of
        None \<Rightarrow> empty_tile
      | Some definition \<Rightarrow> tile_of_definition definition)"

definition initializeTiles :: "(int \<rightharpoonup> TileDefinition) \<Rightarrow> int list list \<Rightarrow> Tile list list" where
  "initializeTiles defs mapData =
     map (\<lambda>row. map (\<lambda>tileType. createTile defs tileType) row) mapData"

text \<open>
  The constructor, given the table that the subclass's \<^verbatim>\<open>initializeTileDefinitions\<close>
  has registered (it runs before \<^verbatim>\<open>initializeTiles\<close>) and the texture manager it
  has filled.
\<close>

definition new_Map ::
  "(int \<rightharpoonup> TileDefinition) \<Rightarrow> TextureManager \<Rightarrow> int list list \<Rightarrow> string \<Rightarrow> string \<Rightarrow> GameMap" where
  "new_Map defs tm mapData floorTex ceilingTex =
     \<lparr>tiles = initializeTiles defs mapData, floorTexture = floorTex, ceilingTexture = ceilingTex,
      tileDefinitions = defs, textureManager = tm\<rparr>"

text \<open>
  \<^verbatim>\<open>this.tiles[y]?.[x]\<close> at integer indices: indexing an array outside
  \<open>0 \<le> i < length\<close> yields \<^verbatim>\<open>undefined\<close>, and \<^verbatim>\<open>?.\<close> passes an undefined row on.
\<close>

definition getTile :: "GameMap \<Rightarrow> int \<Rightarrow> int \<Rightarrow> Tile option" where
  "getTile m x y =
     (if 0 \<le> y \<and> y < int (length (tiles m))
      then (let row = tiles m ! nat y
            in if 0 \<le> x \<and> x < int (length row) then Some (row ! nat x) else None)
      else None)"

text \<open>\<^verbatim>\<open>tile?.isSolid ?? true\<close>\<close>

definition isSolid :: "GameMap \<Rightarrow> int \<Rightarrow> int \<Rightarrow> bool" where
  "isSolid m x y =
     (case getTile m x y of None \<Rightarrow> True | Some t \<Rightarrow> tile_isSolid t)"

text \<open>A grid of declared width \<open>w\<close> and height \<open>h\<close>: \<open>h\<close> rows of \<open>w\<close> tiles each.\<close>

definition grid_dims :: "GameMap \<Rightarrow> nat \<Rightarrow> nat \<Rightarrow> bool" where
  "grid_dims m w h = (length (tiles m) = h \<and> list_all (\<lambda>row. length row = w) (tiles m))"

definition in_bounds :: "nat \<Rightarrow> nat \<Rightarrow> int \<Rightarrow> int \<Rightarrow> bool" where
  "in_bounds w h x y = (0 \<le> x \<and> x < int w \<and> 0 \<le> y \<and> y < int h)"


section \<open>Texture colours (TextureManager.getTextureColor)\<close>

text \<open>
  Colours travel as CSS strings.  A string is a list of code units; only code units
  below 256 occur.  \<open>digits\<close> is the decimal numeral JavaScript prints for a
  non-negative integer, \<open>number_string\<close> the one for any integer (below \<open>10\<^sup>2\<^sup>1\<close> in
  absolute value, where JavaScript still prints all digits).
\<close>

definition digit_char :: "nat \<Rightarrow> char" where
  "digit_char d = ''0123456789'' ! d"

fun digits :: "nat \<Rightarrow> string" where
  "digits n = (if n < 10 then [digit_char n] else digits (n div 10) @ [digit_char (n mod 10)])"

declare digits.simps [simp del]

definition number_string :: "int \<Rightarrow> string" where
  "number_string i = (if i < 0 then CHR ''-'' # digits (nat (- i)) else digits (nat i))"

text \<open>
  Reading a typed array at an integer index: the element, or \<^verbatim>\<open>undefined\<close> out of
  range.  A template literal prints \<^verbatim>\<open>undefined\<close> as that word.
\<close>

definition data_at :: "ImageData \<Rightarrow> int \<Rightarrow> nat option" where
  "data_at td i =
     (if 0 \<le> i \<and> i < int (length (img_data td)) then Some (img_data td ! nat i) else None)"

definition template_value :: "nat option \<Rightarrow> string" where
  "template_value v = (case v of None \<Rightarrow> ''undefined'' | Some n \<Rightarrow> digits n)"

definition getTextureColor :: "TextureManager \<Rightarrow> string \<Rightarrow> int \<Rightarrow> int \<Rightarrow> string" where
  "getTextureColor tm name x0 y0 =
     (case textureData tm name of
        None \<Rightarrow> ''#ffffff''
      | Some td \<Rightarrow>
          (let x = max 0 (min x0 (int (img_width td) - 1));
               y = max 0 (min y0 (int (img_height td) - 1));
               index = (y * int (img_width td) + x) * 4;
               r = data_at td index;
               g = data_at td (index + 1);
               b = data_at td (index + 2)
           in ''rgb('' @ template_value r @ '', '' @ template_value g @ '', ''
                @ template_value b @ '')''))"

text \<open>\<^verbatim>\<open>Map.getTextureColor\<close> delegates to the map's texture manager.\<close>

definition Map_getTextureColor :: "GameMap \<Rightarrow> string \<Rightarrow> int \<Rightarrow> int \<Rightarrow> string" where
  "Map_getTextureColor m textureName x y = getTextureColor (textureManager m) textureName x y"

text \<open>
  What the browser guarantees of an \<^verbatim>\<open>ImageData\<close>: positive dimensions and four
  bytes per pixel.
\<close>

definition valid_ImageData :: "ImageData \<Rightarrow> bool" where
  "valid_ImageData td =
     (0 < img_width td \<and> 0 < img_height td \<and>
      length (img_data td) = 4 * img_width td * img_height td)"

text \<open>The nearest coordinate inside \<open>[0, n)\<close>.\<close>

definition nearest_in :: "nat \<Rightarrow> int \<Rightarrow> nat" where
  "nearest_in n x = (if x < 0 then 0 else if int n \<le> x then n - 1 else nat x)"

text \<open>The channel \<open>c\<close> (0, 1, 2 for red, green, blue) of the pixel at column \<open>px\<close>, row \<open>py\<close>.\<close>

definition pixel_channel :: "ImageData \<Rightarrow> nat \<Rightarrow> nat \<Rightarrow> nat \<Rightarrow> nat" where
  "pixel_channel td px py c = img_data td ! ((py * img_width td + px) * 4 + c)"

section \<open>The renderer\<close>

text \<open>\<^verbatim>\<open>{ r: number, g: number, b: number }\<close>, the type of the fog colour option.\<close>

record RGB =
  rgb_r :: real
  rgb_g :: real
  rgb_b :: real

record Renderer =
  canvas_width :: nat
  canvas_height :: nat
  TILE_SIZE :: real
  FOV :: real
  NUM_RAYS :: nat
  PROJECTION_PLANE_DISTANCE :: real
  DEFAULT_FOG_COLOR :: RGB
  MAX_RAY_DISTANCE :: real

record RendererOptions =
  opt_tileSize :: "real option"
  opt_fov :: "real option"
  opt_numRays :: "nat option"
  opt_projectionPlaneDistance :: "real option"
  opt_defaultFogColor :: "RGB option"
  opt_maxRayDistance :: "real option"

text \<open>\<^verbatim>\<open>a ?? b\<close>\<close>

definition nullish :: "'a option \<Rightarrow> 'a \<Rightarrow> 'a" where
  "nullish a b = (case a of None \<Rightarrow> b | Some v \<Rightarrow> v)"

text \<open>The constructor: the field initialisers, then the options over them.\<close>

definition new_Renderer :: "nat \<Rightarrow> nat \<Rightarrow> RendererOptions \<Rightarrow> Renderer" where
  "new_Renderer cw ch options =
     \<lparr>canvas_width = cw, canvas_height = ch,
      TILE_SIZE = nullish (opt_tileSize options) 64,
      FOV = nullish (opt_fov options) (pi / 3),
      NUM_RAYS = nullish (opt_numRays options) cw,
      PROJECTION_PLANE_DISTANCE = nullish (opt_projectionPlaneDistance options) (64 * 4),
      DEFAULT_FOG_COLOR = nullish (opt_defaultFogColor options) \<lparr>rgb_r = 7, rgb_g = 7, rgb_b = 7\<rparr>,
      MAX_RAY_DISTANCE = nullish (opt_maxRayDistance options) 1000\<rparr>"

definition no_options :: RendererOptions where
  "no_options =
     \<lparr>opt_tileSize = None, opt_fov = None, opt_numRays = None,
      opt_projectionPlaneDistance = None, opt_defaultFogColor = None,
      opt_maxRayDistance = None\<rparr>"

text \<open>Of \<^verbatim>\<open>Player\<close>, the pose the renderer reads.\<close>

record Player =
  player_x :: real
  player_y :: real
  player_angle :: real

subsection \<open>castRay\<close>

text \<open>The local variables of \<^verbatim>\<open>castRay\<close> that the loop updates.\<close>

record March =
  m_distance :: real
  m_hit :: bool
  m_hitX :: real
  m_hitY :: real
  m_hitTile :: "Tile option"

text \<open>The object \<^verbatim>\<open>castRay\<close> returns.\<close>

record RayHit =
  distance :: real
  hitX :: real
  hitY :: real
  tile :: "Tile option"

text \<open>
  One pass through the loop body.  With \<^verbatim>\<open>TILE_SIZE\<close> 0 the quotients are infinite
  or NaN in JavaScript, indexing the grid with them yields \<^verbatim>\<open>undefined\<close>, and no
  tile is found; the model says so explicitly (its \<open>m_hitX\<close>, \<open>m_hitY\<close> mean nothing
  then).  \<^verbatim>\<open>tile?.isSolid\<close> is truthy exactly for a tile that exists and is solid.
\<close>

definition march_step :: "Renderer \<Rightarrow> GameMap \<Rightarrow> Player \<Rightarrow> real \<Rightarrow> real \<Rightarrow> March \<Rightarrow> March" where
  "march_step R m player sn cs s =
     (let d = m_distance s + 1;
          hx = (player_x player + cs * d) / TILE_SIZE R;
          hy = (player_y player + sn * d) / TILE_SIZE R;
          testX = \<lfloor>hx\<rfloor>;
          testY = \<lfloor>hy\<rfloor>;
          t = (if TILE_SIZE R = 0 then None else getTile m testX testY)
      in case t of
           None \<Rightarrow> s\<lparr>m_distance := d, m_hitX := hx, m_hitY := hy\<rparr>
         | Some found \<Rightarrow>
             if tile_isSolid found
             then s\<lparr>m_distance := d, m_hitX := hx, m_hitY := hy, m_hit := True, m_hitTile := Some found\<rparr>
             else s\<lparr>m_distance := d, m_hitX := hx, m_hitY := hy\<rparr>)"

text \<open>\<^verbatim>\<open>while (!hit && distance < this.MAX_RAY_DISTANCE)\<close>\<close>

function march_loop :: "Renderer \<Rightarrow> GameMap \<Rightarrow> Player \<Rightarrow> real \<Rightarrow> real \<Rightarrow> March \<Rightarrow> March" where
  "march_loop R m player sn cs s =
     (if \<not> m_hit s \<and> m_distance s < MAX_RAY_DISTANCE R
      then march_loop R m player sn cs (march_step R m player sn cs s)
      else s)"
  by pat_completeness auto

lemma march_step_distance: "m_distance (march_step R m player sn cs s) = m_distance s + 1"
  by (simp add: march_step_def Let_def split: option.split)

termination march_loop
proof (relation "measure (\<lambda>(R, m, player, sn, cs, s). nat \<lceil>MAX_RAY_DISTANCE R - m_distance s\<rceil>)")
  show "wf (measure (\<lambda>(R, m, player, sn, cs, s). nat \<lceil>MAX_RAY_DISTANCE R - m_distance s\<rceil>))"
    by simp
next
  fix R :: Renderer and m :: GameMap and player :: Player and sn cs :: real and s :: March
  assume a: "\<not> m_hit s \<and> m_distance s < MAX_RAY_DISTANCE R"
  then have "0 < MAX_RAY_DISTANCE R - m_distance s" by simp
  then have "0 < \<lceil>MAX_RAY_DISTANCE R - m_distance s\<rceil>" by linarith
  moreover have "\<lceil>MAX_RAY_DISTANCE R - (m_distance s + 1)\<rceil> = \<lceil>MAX_RAY_DISTANCE R - m_distance s\<rceil> - 1"
    by linarith
  ultimately show "((R, m, player, sn, cs, march_step R m player sn cs s), (R, m, player, sn, cs, s))
      \<in> measure (\<lambda>(R, m, player, sn, cs, s). nat \<lceil>MAX_RAY_DISTANCE R - m_distance s\<rceil>)"
    by (simp add: march_step_distance)
qed

declare march_loop.simps [simp del]

definition castRay :: "Renderer \<Rightarrow> real \<Rightarrow> Player \<Rightarrow> GameMap \<Rightarrow> RayHit" where
  "castRay R rayAngle player m =
     (let sn = sin rayAngle;
          cs = cos rayAngle;
          s = march_loop R m player sn cs
                \<lparr>m_distance = 0, m_hit = False, m_hitX = 0, m_hitY = 0, m_hitTile = None\<rparr>
      in \<lparr>distance = m_distance s, hitX = m_hitX s, hitY = m_hitY s, tile = m_hitTile s\<rparr>)"

text \<open>
  The sample point of step \<open>k\<close> in grid coordinates, and the tile the march finds
  there: the point \<open>k\<close> world units from the player along \<open>(cos angle, sin angle)\<close>,
  divided by the tile size, floored, and looked up with \<open>getTile\<close>.
\<close>

definition sampleX :: "Renderer \<Rightarrow> Player \<Rightarrow> real \<Rightarrow> nat \<Rightarrow> real" where
  "sampleX R player a k = (player_x player + cos a * real k) / TILE_SIZE R"

definition sampleY :: "Renderer \<Rightarrow> Player \<Rightarrow> real \<Rightarrow> nat \<Rightarrow> real" where
  "sampleY R player a k = (player_y player + sin a * real k) / TILE_SIZE R"

definition sample_tile :: "Renderer \<Rightarrow> GameMap \<Rightarrow> Player \<Rightarrow> real \<Rightarrow> nat \<Rightarrow> Tile option" where
  "sample_tile R m player a k =
     (if TILE_SIZE R = 0 then None
      else getTile m \<lfloor>sampleX R player a k\<rfloor> \<lfloor>sampleY R player a k\<rfloor>)"

definition solid_at :: "Renderer \<Rightarrow> GameMap \<Rightarrow> Player \<Rightarrow> real \<Rightarrow> nat \<Rightarrow> bool" where
  "solid_at R m player a k =
     (case sample_tile R m player a k of None \<Rightarrow> False | Some t \<Rightarrow> tile_isSolid t)"

subsection \<open>One screen column of render\<close>

definition rayAngle :: "Renderer \<Rightarrow> Player \<Rightarrow> nat \<Rightarrow> real" where
  "rayAngle R player i =
     player_angle player - FOV R / 2 + (real i / real (NUM_RAYS R)) * FOV R"

definition wallHeight :: "Renderer \<Rightarrow> real \<Rightarrow> real" where
  "wallHeight R d = (TILE_SIZE R * PROJECTION_PLANE_DISTANCE R) / (d + 0.0001)"

definition wallX :: "real \<Rightarrow> real \<Rightarrow> real" where
  "wallX hx hy =
     (if \<bar>hx - of_int \<lfloor>hx + 0.5\<rfloor>\<bar> > \<bar>hy - of_int \<lfloor>hy + 0.5\<rfloor>\<bar>
      then hx - of_int \<lfloor>hx\<rfloor>
      else hy - of_int \<lfloor>hy\<rfloor>)"

definition textureX :: "Renderer \<Rightarrow> real \<Rightarrow> real \<Rightarrow> int" where
  "textureX R hx hy = \<lfloor>wallX hx hy * TILE_SIZE R\<rfloor>"

text \<open>
  What the loop body of \<^verbatim>\<open>render\<close> computes for column \<open>i\<close> before it draws: the
  ray's angle, the hit, the wall height and, when a tile was hit, the texture column.
\<close>

record Column =
  col_rayAngle :: real
  col_hit :: RayHit
  col_wallHeight :: real
  col_textureX :: "int option"

definition render_column :: "Renderer \<Rightarrow> Player \<Rightarrow> GameMap \<Rightarrow> nat \<Rightarrow> Column" where
  "render_column R player m i =
     (let a = rayAngle R player i;
          h = castRay R a player m;
          wh = wallHeight R (distance h)
      in \<lparr>col_rayAngle = a, col_hit = h, col_wallHeight = wh,
          col_textureX = (case tile h of None \<Rightarrow> None
                          | Some t \<Rightarrow> Some (textureX R (hitX h) (hitY h)))\<rparr>)"

text \<open>\<^verbatim>\<open>for (let i = 0; i < this.NUM_RAYS; i++)\<close>\<close>

definition render_columns :: "Renderer \<Rightarrow> Player \<Rightarrow> GameMap \<Rightarrow> Column list" where
  "render_columns R player m = map (render_column R player m) [0..<NUM_RAYS R]"

subsection \<open>getWallColor\<close>

text \<open>
  The regular expression \<^verbatim>\<open>/rgb\((\d+),\s*(\d+),\s*(\d+)\)/\<close>.  \<^verbatim>\<open>\d\<close> is an ASCII
  digit; \<^verbatim>\<open>\s\<close> is white space, of which the code units below 256 are listed.  A
  greedy \<^verbatim>\<open>\d+\<close> or \<^verbatim>\<open>\s*\<close> never has to give characters back here, since what
  must follow it (a comma, a digit, a parenthesis) is not in its class.
\<close>

definition is_digit :: "char \<Rightarrow> bool" where
  "is_digit c = (48 \<le> (of_char c :: nat) \<and> (of_char c :: nat) \<le> 57)"

definition is_space :: "char \<Rightarrow> bool" where
  "is_space c = ((of_char c :: nat) \<in> {9, 10, 11, 12, 13, 32, 160})"

fun strip_prefix :: "string \<Rightarrow> string \<Rightarrow> string option" where
  "strip_prefix [] s = Some s"
| "strip_prefix (p # ps) [] = None"
| "strip_prefix (p # ps) (c # cs) = (if p = c then strip_prefix ps cs else None)"

text \<open>A match that starts at the first character: the three groups of digits.\<close>

definition match_rgb_here :: "string \<Rightarrow> (string \<times> string \<times> string) option" where
  "match_rgb_here s =
     (case strip_prefix ''rgb('' s of None \<Rightarrow> None | Some s1 \<Rightarrow>
        let d1 = takeWhile is_digit s1; s2 = dropWhile is_digit s1 in
        if d1 = [] then None else
        (case strip_prefix '','' s2 of None \<Rightarrow> None | Some s3 \<Rightarrow>
           let s4 = dropWhile is_space s3;
               d2 = takeWhile is_digit s4; s5 = dropWhile is_digit s4 in
           if d2 = [] then None else
           (case strip_prefix '','' s5 of None \<Rightarrow> None | Some s6 \<Rightarrow>
              let s7 = dropWhile is_space s6;
                  d3 = takeWhile is_digit s7; s8 = dropWhile is_digit s7 in
              if d3 = [] then None else
              (case strip_prefix '')'' s8 of None \<Rightarrow> None | Some s9 \<Rightarrow> Some (d1, d2, d3)))))"

text \<open>\<^verbatim>\<open>baseColor.match(...)\<close>: the leftmost match.\<close>

fun match_rgb :: "string \<Rightarrow> (string \<times> string \<times> string) option" where
  "match_rgb [] = match_rgb_here []"
| "match_rgb (c # cs) =
     (case match_rgb_here (c # cs) of Some g \<Rightarrow> Some g | None \<Rightarrow> match_rgb cs)"

text \<open>\<^verbatim>\<open>parseInt\<close> of a string of digits.\<close>

definition digit_value :: "char \<Rightarrow> nat" where
  "digit_value c = of_char c - 48"

definition parseInt :: "string \<Rightarrow> int" where
  "parseInt ds = int (foldl (\<lambda>n c. 10 * n + digit_value c) 0 ds)"

text \<open>The channels \<^verbatim>\<open>getWallColor\<close> reads out of a colour string: 255 each without a match.\<close>

definition parse_color :: "string \<Rightarrow> int \<times> int \<times> int" where
  "parse_color baseColor =
     (case match_rgb baseColor of
        None \<Rightarrow> (255, 255, 255)
      | Some (g1, g2, g3) \<Rightarrow> (parseInt g1, parseInt g2, parseInt g3))"

text \<open>
  The blend factor that \<^verbatim>\<open>getWallColor\<close> computes from the distance
  (\<^verbatim>\<open>fogStart\<close>, \<^verbatim>\<open>fogEnd\<close> and the two assignments to \<^verbatim>\<open>fogFactor\<close>), named
  on its own.
\<close>

definition fogFactor :: "real \<Rightarrow> real" where
  "fogFactor d =
     (let fogStart = 300; fogEnd = 700;
          f = (d - fogStart) / (fogEnd - fogStart)
      in max 0 (min 1 f))"

text \<open>
  \<^verbatim>\<open>!tile?.texture\<close> holds for no tile, a tile without texture, and the empty texture
  name.  \<^verbatim>\<open>Math.round\<close> is \<^const>\<open>round\<close>: the nearest integer, halves upwards.
\<close>

definition getWallColor :: "Renderer \<Rightarrow> Tile option \<Rightarrow> int \<Rightarrow> int \<Rightarrow> GameMap \<Rightarrow> real \<Rightarrow> string" where
  "getWallColor R t texX texY m d =
     (case t of None \<Rightarrow> ''#ffffff'' | Some found \<Rightarrow>
        (case tile_texture found of None \<Rightarrow> ''#ffffff'' | Some tx \<Rightarrow>
           if tx = [] then ''#ffffff'' else
           (let baseColor = Map_getTextureColor m (tile_name found) texX texY;
                fogColor = DEFAULT_FOG_COLOR R;
                (r, g, b) = parse_color baseColor;
                fogStart = 300;
                fogEnd = 700;
                f0 = (d - fogStart) / (fogEnd - fogStart);
                f = max 0 (min 1 f0);
                r' = round (real_of_int r * (1 - f) + rgb_r fogColor * f);
                g' = round (real_of_int g * (1 - f) + rgb_g fogColor * f);
                b' = round (real_of_int b * (1 - f) + rgb_b fogColor * f)
            in ''rgb('' @ number_string r' @ '','' @ number_string g' @ '','' @ number_string b'
                 @ '')'')))"

section \<open>Concrete scenarios\<close>

text \<open>The tile definition and the 4 by 4 level of the example in the documentation of \<^verbatim>\<open>Map\<close>,
  a level of one non-solid tile, a level without tiles, and renderers built with no options,
  with a distance limit of 2, and with a fog colour whose red channel is 7.5.\<close>

definition wall_definition :: TileDefinition where
  "wall_definition =
     \<lparr>def_type = 1, def_name = ''wall'', def_texture = ''brick'', def_isSolid = True,
      def_height = None\<rparr>"

definition example_map :: GameMap where
  "example_map =
     new_Map [1 \<mapsto> wall_definition] \<lparr>textureData = Map.empty\<rparr>
       [[1, 1, 1, 1],
        [1, 0, 0, 1],
        [1, 0, 0, 1],
        [1, 1, 1, 1]] ''grey'' ''darkgrey''"

definition open_map :: GameMap where
  "open_map = new_Map Map.empty \<lparr>textureData = Map.empty\<rparr> [[0]] ''grey'' ''darkgrey''"

definition empty_map :: GameMap where
  "empty_map = new_Map Map.empty \<lparr>textureData = Map.empty\<rparr> [] ''grey'' ''darkgrey''"


definition half_fog_Renderer :: Renderer where
  "half_fog_Renderer =
     new_Renderer 320 200
       (no_options\<lparr>opt_defaultFogColor := Some \<lparr>rgb_r = 15 / 2, rgb_g = 7, rgb_b = 7\<rparr>\<rparr>)"

definition default_Renderer :: Renderer where
  "default_Renderer = new_Renderer 320 200 no_options"

text \<open>An image of two pixels side by side, and the 4 by 4 level with it loaded as the
  texture of its walls.\<close>

definition two_pixels :: ImageData where
  "two_pixels = \<lparr>img_width = 2, img_height = 1, img_data = [10, 20, 30, 255, 40, 50, 60, 255]\<rparr>"

definition textured_map :: GameMap where
  "textured_map =
     new_Map [1 \<mapsto> wall_definition] \<lparr>textureData = [''wall'' \<mapsto> two_pixels]\<rparr>
       [[1, 1, 1, 1],
        [1, 0, 0, 1],
        [1, 0, 0, 1],
        [1, 1, 1, 1]] ''grey'' ''darkgrey''"

subsection \<open>Rings\<close>

text \<open>
  A ring is a grid whose border cells are solid and whose other cells (the open floor)
  are not.  Its inner radius is the distance, in world units, from the centre of the
  grid to the corners of the open floor; its outer radius the distance to the corners
  of the grid.
\<close>

definition open_floor :: "nat \<Rightarrow> nat \<Rightarrow> int \<Rightarrow> int \<Rightarrow> bool" where
  "open_floor w h x y = (1 \<le> x \<and> x \<le> int w - 2 \<and> 1 \<le> y \<and> y \<le> int h - 2)"

definition is_ring :: "GameMap \<Rightarrow> nat \<Rightarrow> nat \<Rightarrow> bool" where
  "is_ring m w h =
     (grid_dims m w h \<and>
      list_all (\<lambda>y. list_all (\<lambda>x. tile_isSolid (tiles m ! y ! x) = (\<not> open_floor w h (int x) (int y)))
                  [0..<w]) [0..<h])"

definition inner_radius :: "Renderer \<Rightarrow> nat \<Rightarrow> nat \<Rightarrow> real" where
  "inner_radius R w h = TILE_SIZE R * sqrt ((real w / 2 - 1)\<^sup>2 + (real h / 2 - 1)\<^sup>2)"

definition outer_radius :: "Renderer \<Rightarrow> nat \<Rightarrow> nat \<Rightarrow> real" where
  "outer_radius R w h = TILE_SIZE R * sqrt ((real w / 2)\<^sup>2 + (real h / 2)\<^sup>2)"

definition centre_player :: "Renderer \<Rightarrow> nat \<Rightarrow> nat \<Rightarrow> real \<Rightarrow> Player" where
  "centre_player R w h facing =
     \<lparr>player_x = real w * TILE_SIZE R / 2, player_y = real h * TILE_SIZE R / 2, player_angle = facing\<rparr>"

definition ring_data :: "nat \<Rightarrow> nat \<Rightarrow> int list list" where
  "ring_data w h =
     map (\<lambda>y. map (\<lambda>x. if open_floor w h (int x) (int y) then 0 else 1) [0..<w]) [0..<h]"

definition ring_map :: "nat \<Rightarrow> nat \<Rightarrow> GameMap" where
  "ring_map w h =
     new_Map [1 \<mapsto> wall_definition] \<lparr>textureData = Map.empty\<rparr> (ring_data w h)
       ''grey'' ''darkgrey''"

definition ten_rays_Renderer :: Renderer where
  "ten_rays_Renderer =
     new_Renderer 320 200 (no_options\<lparr>opt_fov := Some (pi / 3), opt_numRays := Some 10\<rparr>)"

section \<open>Properties of the tile map\<close>

lemma grid_dims_row: "grid_dims m w h \<Longrightarrow> j < h \<Longrightarrow> length (tiles m ! j) = w"
  by (simp add: grid_dims_def list_all_length)

lemma getTile_in_bounds:
  assumes "grid_dims m w h" and "in_bounds w h x y"
  shows "getTile m x y = Some (tiles m ! nat y ! nat x)"
proof -
  from assms have len: "length (tiles m) = h" and y: "0 \<le> y" "y < int h" and x: "0 \<le> x" "x < int w"
    by (simp_all add: grid_dims_def in_bounds_def)
  from y have "nat y < h" by linarith
  with assms(1) have "length (tiles m ! nat y) = w" by (rule grid_dims_row)
  with len x y show ?thesis by (simp add: getTile_def)
qed

lemma getTile_out_of_bounds:
  assumes "grid_dims m w h" and "\<not> in_bounds w h x y"
  shows "getTile m x y = None"
proof (cases "0 \<le> y \<and> y < int h")
  case True
  then have "nat y < h" by linarith
  with assms(1) have "length (tiles m ! nat y) = w" by (rule grid_dims_row)
  moreover from True assms(2) have "\<not> (0 \<le> x \<and> x < int w)" by (simp add: in_bounds_def)
  ultimately show ?thesis by (auto simp add: getTile_def)
next
  case False
  moreover from assms(1) have "length (tiles m) = h" by (simp add: grid_dims_def)
  ultimately show ?thesis by (auto simp add: getTile_def)
qed

text \<open>
  C2.  On a grid of width \<open>w\<close> and height \<open>h\<close>, \<open>isSolid x y\<close> is true for every integer
  pair outside \<open>[0,w) \<times> [0,h)\<close>, and for every pair inside it is the \<open>isSolid\<close> flag of
  the tile stored at row \<open>y\<close>, column \<open>x\<close>.
\<close>

theorem isSolid_bounds:
  assumes "grid_dims m w h"
  shows "(\<not> in_bounds w h x y \<longrightarrow> isSolid m x y) \<and>
         (in_bounds w h x y \<longrightarrow> isSolid m x y = tile_isSolid (tiles m ! nat y ! nat x))"
  using assms by (simp add: isSolid_def getTile_in_bounds getTile_out_of_bounds)

theorem isSolid_bounds_witness:
  "grid_dims (new_Map Map.empty \<lparr>textureData = Map.empty\<rparr> [[0, 0]] ''grey'' ''darkgrey'') 2 1 \<and>
   \<not> in_bounds 2 1 2 0 \<and>
   isSolid (new_Map Map.empty \<lparr>textureData = Map.empty\<rparr> [[0, 0]] ''grey'' ''darkgrey'') 2 0 \<and>
   \<not> in_bounds 2 1 0 (- 1) \<and>
   isSolid (new_Map Map.empty \<lparr>textureData = Map.empty\<rparr> [[0, 0]] ''grey'' ''darkgrey'') 0 (- 1) \<and>
   in_bounds 2 1 1 0 \<and>
   \<not> isSolid (new_Map Map.empty \<lparr>textureData = Map.empty\<rparr> [[0, 0]] ''grey'' ''darkgrey'') 1 0"
proof -
  let ?m = "new_Map Map.empty \<lparr>textureData = Map.empty\<rparr> [[0, 0]] ''grey'' ''darkgrey''"
  have g: "grid_dims ?m 2 1"
    by (simp add: grid_dims_def new_Map_def initializeTiles_def)
  have t: "tiles ?m = [[empty_tile, empty_tile]]"
    by (simp add: new_Map_def initializeTiles_def createTile_def)
  show ?thesis
    using g isSolid_bounds [OF g, of 2 0] isSolid_bounds [OF g, of 0 "- 1"]
      isSolid_bounds [OF g, of 1 0]
    by (simp add: in_bounds_def t empty_tile_def)
qed

text \<open>
  C9 (as the code has it).  For a registered type code, \<open>createTile\<close> returns a tile
  whose \<open>isSolid\<close> flag and texture are those of the registered definition.  For an
  unregistered code (0 included) it returns the default tile: type 0, name "empty",
  non-solid, and with the texture name "empty" (the field is set, not absent).  The
  function is total: no error is raised.
\<close>

theorem createTile_registered_or_default:
  "(defs type = Some d \<longrightarrow>
      tile_isSolid (createTile defs type) = def_isSolid d \<and>
      tile_texture (createTile defs type) = Some (def_texture d)) \<and>
   (defs type = None \<longrightarrow>
      createTile defs type = empty_tile \<and>
      \<not> tile_isSolid (createTile defs type) \<and>
      tile_texture (createTile defs type) = Some ''empty'')"
  by (simp add: createTile_def tile_of_definition_def empty_tile_def)

theorem createTile_registered_or_default_witness:
  "tile_isSolid (createTile [1 \<mapsto> \<lparr>def_type = 1, def_name = ''wall'', def_texture = ''brick'',
       def_isSolid = True, def_height = None\<rparr>] 1) \<and>
   tile_texture (createTile [1 \<mapsto> \<lparr>def_type = 1, def_name = ''wall'', def_texture = ''brick'',
       def_isSolid = True, def_height = None\<rparr>] 1) = Some ''brick'' \<and>
   createTile [1 \<mapsto> \<lparr>def_type = 1, def_name = ''wall'', def_texture = ''brick'',
       def_isSolid = True, def_height = None\<rparr>] 0 = empty_tile"
  using createTile_registered_or_default
    [of "[1 \<mapsto> \<lparr>def_type = 1, def_name = ''wall'', def_texture = ''brick'',
       def_isSolid = True, def_height = None\<rparr>]" 1
       "\<lparr>def_type = 1, def_name = ''wall'', def_texture = ''brick'',
       def_isSolid = True, def_height = None\<rparr>"]
    createTile_registered_or_default
    [of "[1 \<mapsto> \<lparr>def_type = 1, def_name = ''wall'', def_texture = ''brick'',
       def_isSolid = True, def_height = None\<rparr>]" 0]
  by simp

text \<open>
  The default tile of an unregistered code does carry a texture name, so the reading
  "no texture" of C9 fails at type code 0 with an empty definition table.
\<close>

theorem createTile_default_texture_counterexample:
  "tile_texture (createTile Map.empty 0) \<noteq> None"
  by (simp add: createTile_def empty_tile_def)

section \<open>Properties of castRay\<close>

lemma march_step_miss:
  assumes "m_distance s = real n" and "\<not> solid_at R m p a (Suc n)"
  shows "march_step R m p (sin a) (cos a) s =
     s\<lparr>m_distance := real (Suc n), m_hitX := sampleX R p a (Suc n), m_hitY := sampleY R p a (Suc n)\<rparr>"
  using assms
  by (auto simp add: march_step_def solid_at_def sample_tile_def sampleX_def sampleY_def Let_def
      add.commute split: option.splits if_splits)

lemma march_step_hit:
  assumes "m_distance s = real n" and "sample_tile R m p a (Suc n) = Some t" and "tile_isSolid t"
  shows "march_step R m p (sin a) (cos a) s =
     s\<lparr>m_distance := real (Suc n), m_hitX := sampleX R p a (Suc n), m_hitY := sampleY R p a (Suc n),
       m_hit := True, m_hitTile := Some t\<rparr>"
  using assms
  by (auto simp add: march_step_def sample_tile_def sampleX_def sampleY_def Let_def
      add.commute split: option.splits if_splits)

lemma march_loop_hit:
  assumes "m_distance s = real n" and "\<not> m_hit s" and "n < j" and "real j - 1 < MAX_RAY_DISTANCE R"
    and "sample_tile R m p a j = Some t" and "tile_isSolid t"
    and "\<forall>k. n < k \<and> k < j \<longrightarrow> \<not> solid_at R m p a k"
  shows "march_loop R m p (sin a) (cos a) s =
     s\<lparr>m_distance := real j, m_hitX := sampleX R p a j, m_hitY := sampleY R p a j,
       m_hit := True, m_hitTile := Some t\<rparr>"
  using assms
proof (induction "j - n" arbitrary: s n)
  case 0
  then show ?case by simp
next
  case (Suc d)
  from Suc.prems have run: "\<not> m_hit s \<and> m_distance s < MAX_RAY_DISTANCE R" by simp
  show ?case
  proof (cases "Suc n = j")
    case True
    with Suc.prems have st: "march_step R m p (sin a) (cos a) s =
       s\<lparr>m_distance := real j, m_hitX := sampleX R p a j, m_hitY := sampleY R p a j,
         m_hit := True, m_hitTile := Some t\<rparr>"
      using march_step_hit [of s n R m p a t] by simp
    show ?thesis
      by (subst march_loop.simps, simp only: run st if_True, subst march_loop.simps, simp)
  next
    case False
    with Suc.prems have lt: "Suc n < j" by simp
    with Suc.prems have "\<not> solid_at R m p a (Suc n)" by simp
    with Suc.prems have st: "march_step R m p (sin a) (cos a) s =
       s\<lparr>m_distance := real (Suc n), m_hitX := sampleX R p a (Suc n), m_hitY := sampleY R p a (Suc n)\<rparr>"
      using march_step_miss [of s n R m p a] by simp
    let ?s' = "s\<lparr>m_distance := real (Suc n), m_hitX := sampleX R p a (Suc n), m_hitY := sampleY R p a (Suc n)\<rparr>"
    have "march_loop R m p (sin a) (cos a) ?s' =
       ?s'\<lparr>m_distance := real j, m_hitX := sampleX R p a j, m_hitY := sampleY R p a j,
         m_hit := True, m_hitTile := Some t\<rparr>"
    proof (rule Suc.hyps(1))
      show "d = j - Suc n" using Suc.hyps(2) by simp
      show "m_distance ?s' = real (Suc n)" by simp
      show "\<not> m_hit ?s'" using Suc.prems by simp
      show "Suc n < j" by (rule lt)
      show "real j - 1 < MAX_RAY_DISTANCE R" using Suc.prems by simp
      show "sample_tile R m p a j = Some t" using Suc.prems by simp
      show "tile_isSolid t" using Suc.prems by simp
      show "\<forall>k. Suc n < k \<and> k < j \<longrightarrow> \<not> solid_at R m p a k" using Suc.prems by simp
    qed
    then show ?thesis
      by (subst march_loop.simps, simp only: run st if_True, simp)
  qed
qed

lemma march_loop_miss:
  assumes "m_distance s = real n" and "\<not> m_hit s"
    and "\<forall>k. n < k \<and> real k - 1 < MAX_RAY_DISTANCE R \<longrightarrow> \<not> solid_at R m p a k"
  shows "march_loop R m p (sin a) (cos a) s =
     (if real n < MAX_RAY_DISTANCE R
      then s\<lparr>m_distance := real (nat \<lceil>MAX_RAY_DISTANCE R\<rceil>),
             m_hitX := sampleX R p a (nat \<lceil>MAX_RAY_DISTANCE R\<rceil>),
             m_hitY := sampleY R p a (nat \<lceil>MAX_RAY_DISTANCE R\<rceil>)\<rparr>
      else s)"
  using assms
proof (induction "nat \<lceil>MAX_RAY_DISTANCE R\<rceil> - n" arbitrary: s n)
  case 0
  then have "\<not> real n < MAX_RAY_DISTANCE R" by linarith
  with "0.prems" show ?case by (subst march_loop.simps, simp)
next
  case (Suc d)
  let ?N = "nat \<lceil>MAX_RAY_DISTANCE R\<rceil>"
  from Suc.hyps(2) have nN: "n < ?N" by simp
  then have lt: "real n < MAX_RAY_DISTANCE R" by linarith
  with Suc.prems have run: "\<not> m_hit s \<and> m_distance s < MAX_RAY_DISTANCE R" by simp
  from lt Suc.prems have "\<not> solid_at R m p a (Suc n)" by simp
  with Suc.prems have st: "march_step R m p (sin a) (cos a) s =
       s\<lparr>m_distance := real (Suc n), m_hitX := sampleX R p a (Suc n), m_hitY := sampleY R p a (Suc n)\<rparr>"
    using march_step_miss [of s n R m p a] by simp
  let ?s' = "s\<lparr>m_distance := real (Suc n), m_hitX := sampleX R p a (Suc n), m_hitY := sampleY R p a (Suc n)\<rparr>"
  have ih: "march_loop R m p (sin a) (cos a) ?s' =
     (if real (Suc n) < MAX_RAY_DISTANCE R
      then ?s'\<lparr>m_distance := real ?N, m_hitX := sampleX R p a ?N, m_hitY := sampleY R p a ?N\<rparr>
      else ?s')"
  proof (rule Suc.hyps(1))
    show "d = ?N - Suc n" using Suc.hyps(2) by simp
    show "m_distance ?s' = real (Suc n)" by simp
    show "\<not> m_hit ?s'" using Suc.prems by simp
    show "\<forall>k. Suc n < k \<and> real k - 1 < MAX_RAY_DISTANCE R \<longrightarrow> \<not> solid_at R m p a k"
      using Suc.prems by simp
  qed
  have last: "\<not> real (Suc n) < MAX_RAY_DISTANCE R \<Longrightarrow> Suc n = ?N"
    using nN by linarith
  have unroll: "march_loop R m p (sin a) (cos a) s = march_loop R m p (sin a) (cos a) ?s'"
    by (subst march_loop.simps) (simp add: run st)
  show ?case
  proof (cases "real (Suc n) < MAX_RAY_DISTANCE R")
    case True
    with ih lt show ?thesis unfolding unroll by simp
  next
    case False
    then have "Suc n = ?N" by (rule last)
    with False ih lt show ?thesis unfolding unroll by simp
  qed
qed


lemma castRay_hit:
  assumes "0 < j" and "real j - 1 < MAX_RAY_DISTANCE R"
    and "sample_tile R m p a j = Some t" and "tile_isSolid t"
    and "\<forall>k. 0 < k \<and> k < j \<longrightarrow> \<not> solid_at R m p a k"
  shows "castRay R a p m =
     \<lparr>distance = real j, hitX = sampleX R p a j, hitY = sampleY R p a j, tile = Some t\<rparr>"
proof -
  let ?s = "\<lparr>m_distance = 0, m_hit = False, m_hitX = 0, m_hitY = 0, m_hitTile = None\<rparr>"
  have "march_loop R m p (sin a) (cos a) ?s =
     ?s\<lparr>m_distance := real j, m_hitX := sampleX R p a j, m_hitY := sampleY R p a j,
       m_hit := True, m_hitTile := Some t\<rparr>"
    using assms by (intro march_loop_hit [where n = 0]) simp_all
  then show ?thesis by (simp add: castRay_def)
qed

lemma castRay_miss:
  assumes "\<forall>k. 0 < k \<and> real k - 1 < MAX_RAY_DISTANCE R \<longrightarrow> \<not> solid_at R m p a k"
  shows "castRay R a p m =
     (if 0 < MAX_RAY_DISTANCE R
      then \<lparr>distance = real (nat \<lceil>MAX_RAY_DISTANCE R\<rceil>),
            hitX = sampleX R p a (nat \<lceil>MAX_RAY_DISTANCE R\<rceil>),
            hitY = sampleY R p a (nat \<lceil>MAX_RAY_DISTANCE R\<rceil>), tile = None\<rparr>
      else \<lparr>distance = 0, hitX = 0, hitY = 0, tile = None\<rparr>)"
proof -
  let ?s = "\<lparr>m_distance = 0, m_hit = False, m_hitX = 0, m_hitY = 0, m_hitTile = None\<rparr>"
  have "march_loop R m p (sin a) (cos a) ?s =
     (if real 0 < MAX_RAY_DISTANCE R
      then ?s\<lparr>m_distance := real (nat \<lceil>MAX_RAY_DISTANCE R\<rceil>),
             m_hitX := sampleX R p a (nat \<lceil>MAX_RAY_DISTANCE R\<rceil>),
             m_hitY := sampleY R p a (nat \<lceil>MAX_RAY_DISTANCE R\<rceil>)\<rparr>
      else ?s)"
    using assms by (intro march_loop_miss) simp_all
  then show ?thesis by (simp add: castRay_def)
qed

lemma castRay_miss_tile_distance:
  assumes "\<forall>k. 0 < k \<and> real k - 1 < MAX_RAY_DISTANCE R \<longrightarrow> \<not> solid_at R m p a k"
  shows "tile (castRay R a p m) = None"
    and "distance (castRay R a p m) = real (nat \<lceil>MAX_RAY_DISTANCE R\<rceil>)"
proof -
  show "tile (castRay R a p m) = None"
    using castRay_miss [OF assms] by simp
  show "distance (castRay R a p m) = real (nat \<lceil>MAX_RAY_DISTANCE R\<rceil>)"
  proof (cases "0 < MAX_RAY_DISTANCE R")
    case True
    then show ?thesis using castRay_miss [OF assms] by simp
  next
    case False
    then have "nat \<lceil>MAX_RAY_DISTANCE R\<rceil> = 0" by simp
    with False show ?thesis using castRay_miss [OF assms] by simp
  qed
qed



lemma march_loop_distance:
  "m_distance s \<le> m_distance (march_loop R m p sn cs s) \<and>
   (m_distance (march_loop R m p sn cs s) = m_distance s \<or>
    m_distance (march_loop R m p sn cs s) < MAX_RAY_DISTANCE R + 1)"
proof (induction R m p sn cs s rule: march_loop.induct)
  case (1 R m p sn cs s)
  show ?case
  proof (cases "\<not> m_hit s \<and> m_distance s < MAX_RAY_DISTANCE R")
    case False
    then have "march_loop R m p sn cs s = s" by (subst march_loop.simps) (rule if_not_P)
    then show ?thesis by simp
  next
    case True
    then have unroll: "march_loop R m p sn cs s = march_loop R m p sn cs (march_step R m p sn cs s)"
      by (subst march_loop.simps) simp
    from "1.IH" [OF True] True show ?thesis
      unfolding unroll by (auto simp add: march_step_distance)
  qed
qed

lemma castRay_distance_bounds:
  "0 \<le> distance (castRay R a p m) \<and>
   (distance (castRay R a p m) = 0 \<or> distance (castRay R a p m) < MAX_RAY_DISTANCE R + 1)"
  using march_loop_distance [of "\<lparr>m_distance = 0, m_hit = False, m_hitX = 0, m_hitY = 0, m_hitTile = None\<rparr>"
      R m p "sin a" "cos a"]
  by (simp add: castRay_def Let_def)


lemma default_Renderer_fields:
  "TILE_SIZE default_Renderer = 64" "MAX_RAY_DISTANCE default_Renderer = 1000"
  "FOV default_Renderer = pi / 3" "PROJECTION_PLANE_DISTANCE default_Renderer = 256"
  "NUM_RAYS default_Renderer = 320"
  by (simp_all add: default_Renderer_def new_Renderer_def no_options_def nullish_def)

lemma example_map_tiles:
  "tiles example_map =
     [[tile_of_definition wall_definition, tile_of_definition wall_definition,
       tile_of_definition wall_definition, tile_of_definition wall_definition],
      [tile_of_definition wall_definition, empty_tile, empty_tile, tile_of_definition wall_definition],
      [tile_of_definition wall_definition, empty_tile, empty_tile, tile_of_definition wall_definition],
      [tile_of_definition wall_definition, tile_of_definition wall_definition,
       tile_of_definition wall_definition, tile_of_definition wall_definition]]"
  by (simp add: example_map_def new_Map_def initializeTiles_def createTile_def)


lemma getTile_mem: "getTile m x y = Some t \<Longrightarrow> \<exists>row \<in> set (tiles m). t \<in> set row"
proof -
  assume a: "getTile m x y = Some t"
  then have y: "0 \<le> y" "y < int (length (tiles m))"
    by (auto simp add: getTile_def split: if_splits)
  with a have x: "0 \<le> x" "x < int (length (tiles m ! nat y))" and t: "t = tiles m ! nat y ! nat x"
    by (auto simp add: getTile_def Let_def split: if_splits)
  from y have "tiles m ! nat y \<in> set (tiles m)" by simp
  moreover from x t have "t \<in> set (tiles m ! nat y)" by simp
  ultimately show ?thesis by blast
qed

lemma solid_at_mem:
  "solid_at R m p a k \<Longrightarrow> \<exists>row \<in> set (tiles m). \<exists>t \<in> set row. tile_isSolid t"
proof -
  assume "solid_at R m p a k"
  then obtain t where "sample_tile R m p a k = Some t" and s: "tile_isSolid t"
    by (auto simp add: solid_at_def split: option.splits)
  then have "getTile m \<lfloor>sampleX R p a k\<rfloor> \<lfloor>sampleY R p a k\<rfloor> = Some t"
    by (simp add: sample_tile_def split: if_splits)
  from getTile_mem [OF this] s show ?thesis by blast
qed

lemma solid_at_iff:
  "solid_at R m p a k \<longleftrightarrow> (\<exists>t. sample_tile R m p a k = Some t \<and> tile_isSolid t)"
  by (simp add: solid_at_def split: option.split)

lemma open_map_tiles: "tiles open_map = [[empty_tile]]"
  by (simp add: open_map_def new_Map_def initializeTiles_def createTile_def)

lemma empty_map_tiles: "tiles empty_map = []"
  by (simp add: empty_map_def new_Map_def initializeTiles_def)

lemma open_map_not_solid: "\<not> solid_at R open_map p a k"
  by (auto dest!: solid_at_mem simp add: open_map_tiles empty_tile_def)

text \<open>
  C1 (as the code has it).  \<open>castRay\<close> moves the sample point one world unit per step
  from the player's position along \<open>(cos angle, sin angle)\<close>, divides by the tile size,
  floors, and looks the cell up with \<open>getTile\<close>.  It stops at the first step whose
  cell holds a solid tile (a cell outside the grid holds none) and reports that step's
  distance, sample point and tile.  If no step up to the distance limit finds one, it
  reports no tile and the least whole number of steps that reaches \<open>MAX_RAY_DISTANCE\<close>,
  which is the limit itself when that is a whole number.  Every step adds exactly 1 to
  the distance; the reported distance is never negative and, for a non-negative limit,
  stays below the limit plus one step.
\<close>

theorem castRay_unit_step_march:
  "(0 < j \<and> real j - 1 < MAX_RAY_DISTANCE R \<and> sample_tile R m p a j = Some t \<and> tile_isSolid t \<and>
      (\<forall>k. 0 < k \<and> k < j \<longrightarrow> \<not> solid_at R m p a k) \<longrightarrow>
      castRay R a p m =
        \<lparr>distance = real j, hitX = sampleX R p a j, hitY = sampleY R p a j, tile = Some t\<rparr>) \<and>
   ((\<forall>k. 0 < k \<and> real k - 1 < MAX_RAY_DISTANCE R \<longrightarrow> \<not> solid_at R m p a k) \<longrightarrow>
      tile (castRay R a p m) = None \<and>
      distance (castRay R a p m) = real (nat \<lceil>MAX_RAY_DISTANCE R\<rceil>) \<and>
      (MAX_RAY_DISTANCE R = real n \<longrightarrow> distance (castRay R a p m) = MAX_RAY_DISTANCE R)) \<and>
   m_distance (march_step R m p (sin a) (cos a) s) = m_distance s + 1 \<and>
   m_distance s \<le> m_distance (march_loop R m p (sin a) (cos a) s) \<and>
   0 \<le> distance (castRay R a p m) \<and>
   (0 \<le> MAX_RAY_DISTANCE R \<longrightarrow> distance (castRay R a p m) < MAX_RAY_DISTANCE R + 1)"
proof (intro conjI impI)
  assume "0 < j \<and> real j - 1 < MAX_RAY_DISTANCE R \<and> sample_tile R m p a j = Some t \<and> tile_isSolid t \<and>
      (\<forall>k. 0 < k \<and> k < j \<longrightarrow> \<not> solid_at R m p a k)"
  then show "castRay R a p m =
        \<lparr>distance = real j, hitX = sampleX R p a j, hitY = sampleY R p a j, tile = Some t\<rparr>"
    by (intro castRay_hit) simp_all
next
  assume miss: "\<forall>k. 0 < k \<and> real k - 1 < MAX_RAY_DISTANCE R \<longrightarrow> \<not> solid_at R m p a k"
  then show "tile (castRay R a p m) = None" by (rule castRay_miss_tile_distance)
  from miss show d: "distance (castRay R a p m) = real (nat \<lceil>MAX_RAY_DISTANCE R\<rceil>)"
    by (rule castRay_miss_tile_distance)
  assume "MAX_RAY_DISTANCE R = real n"
  with d show "distance (castRay R a p m) = MAX_RAY_DISTANCE R" by simp
next
  show "m_distance (march_step R m p (sin a) (cos a) s) = m_distance s + 1"
    by (rule march_step_distance)
  show "m_distance s \<le> m_distance (march_loop R m p (sin a) (cos a) s)"
    using march_loop_distance by blast
  show "0 \<le> distance (castRay R a p m)"
    using castRay_distance_bounds by blast
next
  assume "0 \<le> MAX_RAY_DISTANCE R"
  then show "distance (castRay R a p m) < MAX_RAY_DISTANCE R + 1"
    using castRay_distance_bounds [of R a p m] by auto
qed

theorem castRay_unit_step_march_witness:
  "castRay default_Renderer 0 \<lparr>player_x = 381 / 2, player_y = 100, player_angle = 0\<rparr> example_map =
     \<lparr>distance = 2, hitX = 385 / 128, hitY = 25 / 16, tile = Some (tile_of_definition wall_definition)\<rparr> \<and>
   tile (castRay default_Renderer 0 \<lparr>player_x = 32, player_y = 32, player_angle = 0\<rparr> open_map) = None \<and>
   distance (castRay default_Renderer 0 \<lparr>player_x = 32, player_y = 32, player_angle = 0\<rparr> open_map) = 1000 \<and>
   distance (castRay default_Renderer 0 \<lparr>player_x = 32, player_y = 32, player_angle = 0\<rparr> open_map)
     = MAX_RAY_DISTANCE default_Renderer"
proof -
  let ?p = "\<lparr>player_x = 381 / 2, player_y = 100, player_angle = 0\<rparr>"
  let ?q = "\<lparr>player_x = 32, player_y = 32, player_angle = 0\<rparr>"
  have t1: "sample_tile default_Renderer example_map ?p 0 1 = Some empty_tile"
    by (simp add: sample_tile_def sampleX_def sampleY_def default_Renderer_fields getTile_def
        example_map_tiles)
  have t2: "sample_tile default_Renderer example_map ?p 0 2 = Some (tile_of_definition wall_definition)"
    by (simp add: sample_tile_def sampleX_def sampleY_def default_Renderer_fields getTile_def
        example_map_tiles)
  have before: "\<forall>k. 0 < k \<and> k < 2 \<longrightarrow> \<not> solid_at default_Renderer example_map ?p 0 k"
  proof (intro allI impI)
    fix k :: nat
    assume "0 < k \<and> k < 2"
    then have "k = 1" by simp
    with t1 show "\<not> solid_at default_Renderer example_map ?p 0 k"
      by (simp add: solid_at_def empty_tile_def)
  qed
  have solid: "tile_isSolid (tile_of_definition wall_definition)"
    by (simp add: tile_of_definition_def wall_definition_def)
  have miss: "\<forall>k. 0 < k \<and> real k - 1 < MAX_RAY_DISTANCE default_Renderer \<longrightarrow>
      \<not> solid_at default_Renderer open_map ?q 0 k"
    by (simp add: open_map_not_solid)
  have max: "MAX_RAY_DISTANCE default_Renderer = real 1000"
    by (simp add: default_Renderer_fields)
  show ?thesis
    using castRay_unit_step_march [of 2 default_Renderer example_map ?p 0
        "tile_of_definition wall_definition" 0
        "\<lparr>m_distance = 0, m_hit = False, m_hitX = 0, m_hitY = 0, m_hitTile = None\<rparr>"]
      castRay_unit_step_march [of 0 default_Renderer open_map ?q 0 empty_tile 1000
        "\<lparr>m_distance = 0, m_hit = False, m_hitX = 0, m_hitY = 0, m_hitTile = None\<rparr>"]
      t2 before solid miss max
    by (simp add: default_Renderer_fields sampleX_def sampleY_def)
qed

text \<open>
  C1 as stated fails: in a grid of one non-solid tile, the first sample of a ray cast
  eastwards from \<open>(63.5, 32)\<close> lies outside the grid, where \<open>isSolid\<close> is true; the march
  does not stop there but runs all 1000 steps and reports no tile.
\<close>

theorem castRay_isSolid_counterexample:
  "isSolid open_map
     \<lfloor>sampleX default_Renderer \<lparr>player_x = 127 / 2, player_y = 32, player_angle = 0\<rparr> 0 1\<rfloor>
     \<lfloor>sampleY default_Renderer \<lparr>player_x = 127 / 2, player_y = 32, player_angle = 0\<rparr> 0 1\<rfloor> \<and>
   distance (castRay default_Renderer 0 \<lparr>player_x = 127 / 2, player_y = 32, player_angle = 0\<rparr> open_map)
     = 1000 \<and>
   tile (castRay default_Renderer 0 \<lparr>player_x = 127 / 2, player_y = 32, player_angle = 0\<rparr> open_map)
     = None"
proof -
  let ?q = "\<lparr>player_x = 127 / 2, player_y = 32, player_angle = 0\<rparr>"
  have miss: "\<forall>k. 0 < k \<and> real k - 1 < MAX_RAY_DISTANCE default_Renderer \<longrightarrow>
      \<not> solid_at default_Renderer open_map ?q 0 k"
    by (simp add: open_map_not_solid)
  have "isSolid open_map \<lfloor>sampleX default_Renderer ?q 0 1\<rfloor> \<lfloor>sampleY default_Renderer ?q 0 1\<rfloor>"
    by (simp add: isSolid_def getTile_def open_map_tiles sampleX_def sampleY_def
        default_Renderer_fields)
  then show ?thesis
    using castRay_miss_tile_distance [OF miss] by (simp add: default_Renderer_fields)
qed


lemma no_cells_not_solid:
  assumes "\<forall>row \<in> set (tiles m). row = []"
  shows "\<not> solid_at R m p a k"
  using assms by (auto dest!: solid_at_mem)

text \<open>
  C3 (as the code has it).  On a grid without cells (no rows, or only empty rows) every
  sample is out of bounds, \<open>getTile\<close> finds no tile, and no ray ever hits: \<open>castRay\<close>
  reports no tile, and its distance is the whole number of steps that reaches
  \<open>MAX_RAY_DISTANCE\<close>, so at least that limit (1000 under the default configuration),
  whatever the tile size.
\<close>

theorem castRay_empty_grid:
  assumes "\<forall>row \<in> set (tiles m). row = []"
  shows "tile (castRay R a p m) = None \<and>
         distance (castRay R a p m) = real (nat \<lceil>MAX_RAY_DISTANCE R\<rceil>) \<and>
         MAX_RAY_DISTANCE R \<le> distance (castRay R a p m)"
proof -
  have miss: "\<forall>k. 0 < k \<and> real k - 1 < MAX_RAY_DISTANCE R \<longrightarrow> \<not> solid_at R m p a k"
    using assms by (simp add: no_cells_not_solid)
  have "distance (castRay R a p m) = real (nat \<lceil>MAX_RAY_DISTANCE R\<rceil>)"
    using miss by (rule castRay_miss_tile_distance)
  moreover have "MAX_RAY_DISTANCE R \<le> real (nat \<lceil>MAX_RAY_DISTANCE R\<rceil>)" by linarith
  moreover have "tile (castRay R a p m) = None"
    using miss by (rule castRay_miss_tile_distance)
  ultimately show ?thesis by simp
qed

theorem castRay_empty_grid_witness:
  "tile (castRay default_Renderer (pi / 4) \<lparr>player_x = 0, player_y = 0, player_angle = 0\<rparr> empty_map) = None \<and>
   distance (castRay default_Renderer (pi / 4) \<lparr>player_x = 0, player_y = 0, player_angle = 0\<rparr> empty_map) = 1000"
proof -
  have "\<forall>row \<in> set (tiles empty_map). row = []" by (simp add: empty_map_tiles)
  from castRay_empty_grid [OF this, of default_Renderer "pi / 4"
      "\<lparr>player_x = 0, player_y = 0, player_angle = 0\<rparr>"]
  show ?thesis by (simp add: default_Renderer_fields)
qed

text \<open>
  C3 as stated fails: on the empty grid with the default configuration (tile size 64)
  the first sample is out of bounds and \<open>isSolid\<close> is true there, yet the ray cast from
  the origin at angle 0 reports no tile, and its distance is 1000, not the tile size.
\<close>

theorem castRay_empty_grid_counterexample:
  "isSolid empty_map
     \<lfloor>sampleX default_Renderer \<lparr>player_x = 0, player_y = 0, player_angle = 0\<rparr> 0 1\<rfloor>
     \<lfloor>sampleY default_Renderer \<lparr>player_x = 0, player_y = 0, player_angle = 0\<rparr> 0 1\<rfloor> \<and>
   tile (castRay default_Renderer 0 \<lparr>player_x = 0, player_y = 0, player_angle = 0\<rparr> empty_map) = None \<and>
   distance (castRay default_Renderer 0 \<lparr>player_x = 0, player_y = 0, player_angle = 0\<rparr> empty_map)
     \<noteq> TILE_SIZE default_Renderer"
proof -
  let ?p = "\<lparr>player_x = 0, player_y = 0, player_angle = 0\<rparr>"
  have miss: "\<forall>k. 0 < k \<and> real k - 1 < MAX_RAY_DISTANCE default_Renderer \<longrightarrow>
      \<not> solid_at default_Renderer empty_map ?p 0 k"
    by (simp add: no_cells_not_solid empty_map_tiles)
  have "isSolid empty_map \<lfloor>sampleX default_Renderer ?p 0 1\<rfloor> \<lfloor>sampleY default_Renderer ?p 0 1\<rfloor>"
    by (auto simp add: isSolid_def getTile_def empty_map_tiles)
  then show ?thesis
    using castRay_miss_tile_distance [OF miss] by (simp add: default_Renderer_fields)
qed










section \<open>Properties of the column computation\<close>

text \<open>
  C8.  Column \<open>i\<close> of \<open>N\<close> rays is cast at the angle
  \<open>viewerAngle - FOV/2 + (i/N) * FOV\<close>, and its wall height is
  \<open>(tileSize * projectionDistance) / (distance + 0.0001)\<close> for the distance the ray
  reports.  With tile size 64 and projection distance 256, a distance of 64 gives a wall
  height just below 256, less than 0.001 away from it.
\<close>

theorem render_column_angle_height:
  "length (render_columns R player m) = NUM_RAYS R \<and>
   (i < NUM_RAYS R \<longrightarrow> render_columns R player m ! i = render_column R player m i) \<and>
   col_rayAngle (render_column R player m i) =
     player_angle player - FOV R / 2 + (real i / real (NUM_RAYS R)) * FOV R \<and>
   col_hit (render_column R player m i) =
     castRay R (col_rayAngle (render_column R player m i)) player m \<and>
   col_wallHeight (render_column R player m i) =
     (TILE_SIZE R * PROJECTION_PLANE_DISTANCE R) /
       (distance (col_hit (render_column R player m i)) + 0.0001) \<and>
   (TILE_SIZE R = 64 \<and> PROJECTION_PLANE_DISTANCE R = 256 \<longrightarrow>
      wallHeight R 64 < 256 \<and> 256 - wallHeight R 64 < 1 / 1000)"
  by (simp add: render_columns_def render_column_def rayAngle_def wallHeight_def Let_def)

theorem render_column_angle_height_witness:
  "render_columns default_Renderer \<lparr>player_x = 128, player_y = 128, player_angle = 0\<rparr> example_map ! 160
     = render_column default_Renderer \<lparr>player_x = 128, player_y = 128, player_angle = 0\<rparr> example_map 160 \<and>
   col_rayAngle (render_column default_Renderer
     \<lparr>player_x = 128, player_y = 128, player_angle = 0\<rparr> example_map 160) = 0 \<and>
   wallHeight default_Renderer 64 < 256 \<and> 256 - wallHeight default_Renderer 64 < 1 / 1000"
  using render_column_angle_height [where R = default_Renderer and m = example_map and i = 160
      and player = "\<lparr>player_x = 128, player_y = 128, player_angle = 0\<rparr>"]
  by (simp add: default_Renderer_fields)

text \<open>
  C7.  For a hit at grid coordinates \<open>(hitX, hitY)\<close> the renderer compares
  \<open>|hitX - round hitX|\<close> with \<open>|hitY - round hitY|\<close>.  The coordinate nearer to an
  integer decides the face, and the texture column is the fractional part of the other
  coordinate times the tile size, floored; when both are equally near, it is that of
  \<open>hitY\<close>.  The loop body of \<open>render\<close> uses this column for every ray that reports a tile.
\<close>

theorem textureX_tie_break:
  "(\<bar>hx - of_int (round hx)\<bar> > \<bar>hy - of_int (round hy)\<bar> \<longrightarrow>
      textureX R hx hy = \<lfloor>frac hx * TILE_SIZE R\<rfloor>) \<and>
   (\<bar>hx - of_int (round hx)\<bar> < \<bar>hy - of_int (round hy)\<bar> \<longrightarrow>
      textureX R hx hy = \<lfloor>frac hy * TILE_SIZE R\<rfloor>) \<and>
   (\<bar>hx - of_int (round hx)\<bar> = \<bar>hy - of_int (round hy)\<bar> \<longrightarrow>
      textureX R hx hy = \<lfloor>frac hy * TILE_SIZE R\<rfloor>) \<and>
   (tile (castRay R (rayAngle R player i) player m) = Some t \<longrightarrow>
      col_textureX (render_column R player m i) =
        Some (textureX R (hitX (castRay R (rayAngle R player i) player m))
                         (hitY (castRay R (rayAngle R player i) player m))))"
  by (simp add: textureX_def wallX_def round_def frac_def render_column_def Let_def)

theorem textureX_tie_break_witness:
  "\<bar>(385 / 128 :: real) - of_int (round (385 / 128 :: real))\<bar>
     < \<bar>(25 / 16 :: real) - of_int (round (25 / 16 :: real))\<bar> \<and>
   textureX default_Renderer (385 / 128) (25 / 16) = 36 \<and>
   \<bar>(5 / 2 :: real) - of_int (round (5 / 2 :: real))\<bar>
     > \<bar>(11 / 10 :: real) - of_int (round (11 / 10 :: real))\<bar> \<and>
   textureX default_Renderer (5 / 2) (11 / 10) = 32 \<and>
   textureX default_Renderer (5 / 4) (9 / 4) = 16"
  using textureX_tie_break [where hx = "385 / 128" and hy = "25 / 16" and R = default_Renderer]
    textureX_tie_break [where hx = "5 / 2" and hy = "11 / 10" and R = default_Renderer]
    textureX_tie_break [where hx = "5 / 4" and hy = "9 / 4" and R = default_Renderer]
  by (simp add: round_def frac_def default_Renderer_fields)

section \<open>Rays inside a ring\<close>

lemma is_ring_cell:
  assumes "is_ring m w h" and "in_bounds w h x y"
  shows "\<exists>t. getTile m x y = Some t \<and> tile_isSolid t = (\<not> open_floor w h x y)"
proof -
  from assms(1) have g: "grid_dims m w h" by (simp add: is_ring_def)
  from assms(2) have b: "nat y < h" "nat x < w" "int (nat x) = x" "int (nat y) = y"
    by (auto simp add: in_bounds_def)
  from assms(1) b have "tile_isSolid (tiles m ! nat y ! nat x) = (\<not> open_floor w h (int (nat x)) (int (nat y)))"
    by (simp add: is_ring_def list_all_length)
  with b getTile_in_bounds [OF g assms(2)] show ?thesis by simp
qed

lemma open_floor_in_bounds: "open_floor w h x y \<Longrightarrow> in_bounds w h x y"
  by (simp add: open_floor_def in_bounds_def)

lemma ring_floor_not_solid:
  assumes "is_ring m w h" and "open_floor w h \<lfloor>sampleX R p a k\<rfloor> \<lfloor>sampleY R p a k\<rfloor>"
  shows "\<not> solid_at R m p a k"
  using is_ring_cell [OF assms(1) open_floor_in_bounds [OF assms(2)]] assms(2)
  by (auto simp add: solid_at_def sample_tile_def)

lemma ring_border_solid:
  assumes "is_ring m w h" and "TILE_SIZE R \<noteq> 0"
    and "in_bounds w h \<lfloor>sampleX R p a k\<rfloor> \<lfloor>sampleY R p a k\<rfloor>"
    and "\<not> open_floor w h \<lfloor>sampleX R p a k\<rfloor> \<lfloor>sampleY R p a k\<rfloor>"
  shows "\<exists>t. sample_tile R m p a k = Some t \<and> tile_isSolid t"
  using is_ring_cell [OF assms(1,3)] assms(2,4)
  by (auto simp add: sample_tile_def)

lemma centre_sample:
  assumes "TILE_SIZE R \<noteq> 0"
  shows "sampleX R (centre_player R w h f) a k = real w / 2 + cos a * real k / TILE_SIZE R"
    and "sampleY R (centre_player R w h f) a k = real h / 2 + sin a * real k / TILE_SIZE R"
  using assms by (simp_all add: sampleX_def sampleY_def centre_player_def add_divide_distrib)

lemma open_floor_within_radius:
  assumes ts: "0 < TILE_SIZE R"
    and fl: "open_floor w h \<lfloor>sampleX R (centre_player R w h f) a k\<rfloor> \<lfloor>sampleY R (centre_player R w h f) a k\<rfloor>"
  shows "real k \<le> inner_radius R w h"
proof -
  let ?ts = "TILE_SIZE R"
  let ?u = "cos a * real k / ?ts"
  let ?v = "sin a * real k / ?ts"
  let ?A = "real w / 2 - 1"
  let ?B = "real h / 2 - 1"
  from ts have nz: "?ts \<noteq> 0" by simp
  from fl have x1: "1 \<le> real w / 2 + ?u" and x2: "real w / 2 + ?u < real w - 1"
    and y1: "1 \<le> real h / 2 + ?v" and y2: "real h / 2 + ?v < real h - 1"
    unfolding open_floor_def centre_sample [OF nz] by linarith+
  from x1 x2 have au: "\<bar>?u\<bar> \<le> ?A" by linarith
  then have "0 \<le> ?A" by linarith
  with au have u: "?u\<^sup>2 \<le> ?A\<^sup>2" by (simp only: power2_le_iff_abs_le)
  from y1 y2 have av: "\<bar>?v\<bar> \<le> ?B" by linarith
  then have "0 \<le> ?B" by linarith
  with av have v: "?v\<^sup>2 \<le> ?B\<^sup>2" by (simp only: power2_le_iff_abs_le)
  have "?u\<^sup>2 = (cos a)\<^sup>2 * (real k / ?ts)\<^sup>2" and "?v\<^sup>2 = (sin a)\<^sup>2 * (real k / ?ts)\<^sup>2"
    by (simp_all add: power_mult_distrib power_divide)
  then have "?u\<^sup>2 + ?v\<^sup>2 = ((cos a)\<^sup>2 + (sin a)\<^sup>2) * (real k / ?ts)\<^sup>2"
    by (simp only: distrib_right)
  also have "\<dots> = (real k / ?ts)\<^sup>2" by (simp only: sin_cos_squared_add2 mult_1)
  finally have "(real k / ?ts)\<^sup>2 \<le> ?A\<^sup>2 + ?B\<^sup>2" using u v by linarith
  then have "real k / ?ts \<le> sqrt (?A\<^sup>2 + ?B\<^sup>2)" by (rule real_le_rsqrt)
  with ts have "real k \<le> sqrt (?A\<^sup>2 + ?B\<^sup>2) * ?ts" by (simp add: pos_divide_le_eq)
  then show ?thesis by (simp add: inner_radius_def mult.commute)
qed

lemma centre_open_floor:
  assumes "3 \<le> w" and "3 \<le> h" and "TILE_SIZE R \<noteq> 0"
  shows "open_floor w h \<lfloor>sampleX R (centre_player R w h f) a 0\<rfloor> \<lfloor>sampleY R (centre_player R w h f) a 0\<rfloor>"
proof -
  from assms(1) have "1 \<le> \<lfloor>real w / 2\<rfloor>" "\<lfloor>real w / 2\<rfloor> \<le> int w - 2" by linarith+
  moreover from assms(2) have "1 \<le> \<lfloor>real h / 2\<rfloor>" "\<lfloor>real h / 2\<rfloor> \<le> int h - 2" by linarith+
  ultimately show ?thesis
    by (simp add: open_floor_def centre_sample [OF assms(3)])
qed

lemma step_stays_in_bounds:
  assumes ts: "1 \<le> TILE_SIZE R"
    and fl: "open_floor w h \<lfloor>sampleX R (centre_player R w h f) a k\<rfloor> \<lfloor>sampleY R (centre_player R w h f) a k\<rfloor>"
  shows "in_bounds w h \<lfloor>sampleX R (centre_player R w h f) a (Suc k)\<rfloor>
                        \<lfloor>sampleY R (centre_player R w h f) a (Suc k)\<rfloor>"
proof -
  let ?ts = "TILE_SIZE R"
  let ?p = "centre_player R w h f"
  from ts have nz: "?ts \<noteq> 0" and pos: "0 < ?ts" by simp_all
  have dx: "sampleX R ?p a (Suc k) = sampleX R ?p a k + cos a / ?ts"
    by (simp add: centre_sample [OF nz] algebra_simps add_divide_distrib)
  have dy: "sampleY R ?p a (Suc k) = sampleY R ?p a k + sin a / ?ts"
    by (simp add: centre_sample [OF nz] algebra_simps add_divide_distrib)
  have "\<bar>cos a\<bar> \<le> 1" by simp
  with ts have "\<bar>cos a\<bar> \<le> ?ts" by linarith
  with pos have "\<bar>cos a / ?ts\<bar> \<le> 1" by simp
  then have cx: "- 1 \<le> cos a / ?ts" "cos a / ?ts \<le> 1" by linarith+
  have "\<bar>sin a\<bar> \<le> 1" by simp
  with ts have "\<bar>sin a\<bar> \<le> ?ts" by linarith
  with pos have "\<bar>sin a / ?ts\<bar> \<le> 1" by simp
  then have cy: "- 1 \<le> sin a / ?ts" "sin a / ?ts \<le> 1" by linarith+
  from fl have bx: "1 \<le> \<lfloor>sampleX R ?p a k\<rfloor>" "\<lfloor>sampleX R ?p a k\<rfloor> \<le> int w - 2"
    and "by": "1 \<le> \<lfloor>sampleY R ?p a k\<rfloor>" "\<lfloor>sampleY R ?p a k\<rfloor> \<le> int h - 2"
    by (simp_all add: open_floor_def)
  from cx bx have "0 \<le> \<lfloor>sampleX R ?p a (Suc k)\<rfloor>" "\<lfloor>sampleX R ?p a (Suc k)\<rfloor> < int w"
    unfolding dx by linarith+
  moreover from cy "by" have "0 \<le> \<lfloor>sampleY R ?p a (Suc k)\<rfloor>" "\<lfloor>sampleY R ?p a (Suc k)\<rfloor> < int h"
    unfolding dy by linarith+
  ultimately show ?thesis by (simp add: in_bounds_def)
qed


lemma ring_hit:
  assumes ring: "is_ring m w h" and w: "3 \<le> w" and h: "3 \<le> h" and ts: "1 \<le> TILE_SIZE R"
    and reach: "inner_radius R w h < MAX_RAY_DISTANCE R"
  shows "\<exists>j t. 0 < j \<and> real j \<le> inner_radius R w h + 1 \<and> tile_isSolid t \<and>
           castRay R a (centre_player R w h f) m =
             \<lparr>distance = real j, hitX = sampleX R (centre_player R w h f) a j,
              hitY = sampleY R (centre_player R w h f) a j, tile = Some t\<rparr>"
proof -
  let ?p = "centre_player R w h f"
  let ?fl = "\<lambda>k. open_floor w h \<lfloor>sampleX R ?p a k\<rfloor> \<lfloor>sampleY R ?p a k\<rfloor>"
  from ts have pos: "0 < TILE_SIZE R" and nz: "TILE_SIZE R \<noteq> 0" by simp_all
  have "\<not> ?fl (nat \<lceil>inner_radius R w h\<rceil> + 1)"
  proof
    assume "?fl (nat \<lceil>inner_radius R w h\<rceil> + 1)"
    from open_floor_within_radius [OF pos this]
    show False by linarith
  qed
  then have ex: "\<exists>k. \<not> ?fl k" ..
  define j where "j = (LEAST k. \<not> ?fl k)"
  from ex have nj: "\<not> ?fl j" unfolding j_def by (rule LeastI_ex)
  have below: "?fl k" if "k < j" for k
    using not_less_Least [of k "\<lambda>k. \<not> ?fl k"] that unfolding j_def by blast
  have "?fl 0" using w h nz by (rule centre_open_floor)
  with nj have "j \<noteq> 0" by (cases "j = 0") auto
  then obtain i where ji: "j = Suc i" by (cases j) auto
  then have fi: "?fl i" using below [of i] by simp
  from open_floor_within_radius [OF pos fi] have ir: "real i \<le> inner_radius R w h" .
  from step_stays_in_bounds [OF ts fi]
  have inb: "in_bounds w h \<lfloor>sampleX R ?p a j\<rfloor> \<lfloor>sampleY R ?p a j\<rfloor>" by (simp add: ji)
  from ring_border_solid [OF ring nz inb nj]
  obtain t where t: "sample_tile R m ?p a j = Some t" and solid: "tile_isSolid t" by blast
  have before: "\<forall>k. 0 < k \<and> k < j \<longrightarrow> \<not> solid_at R m ?p a k"
    using below ring_floor_not_solid [OF ring] by blast
  have lim: "real j - 1 < MAX_RAY_DISTANCE R" using ir reach by (simp add: ji)
  have j0: "0 < j" by (simp add: ji)
  from castRay_hit [OF j0 lim t solid before]
  have "castRay R a ?p m =
      \<lparr>distance = real j, hitX = sampleX R ?p a j, hitY = sampleY R ?p a j, tile = Some t\<rparr>" .
  moreover have "real j \<le> inner_radius R w h + 1" using ir by (simp add: ji)
  ultimately show ?thesis using j0 solid by blast
qed

lemma inner_below_outer:
  assumes "2 \<le> w" and "2 \<le> h" and "0 < TILE_SIZE R"
  shows "inner_radius R w h < outer_radius R w h"
proof -
  from assms(1) have "0 \<le> real w / 2 - 1" "real w / 2 - 1 < real w / 2" by simp_all
  then have a: "(real w / 2 - 1)\<^sup>2 < (real w / 2)\<^sup>2" by (intro power_strict_mono) simp_all
  from assms(2) have "0 \<le> real h / 2 - 1" "real h / 2 - 1 < real h / 2" by simp_all
  then have b: "(real h / 2 - 1)\<^sup>2 < (real h / 2)\<^sup>2" by (intro power_strict_mono) simp_all
  from a b have "sqrt ((real w / 2 - 1)\<^sup>2 + (real h / 2 - 1)\<^sup>2) < sqrt ((real w / 2)\<^sup>2 + (real h / 2)\<^sup>2)"
    by (simp only: real_sqrt_less_iff)
  with assms(3) show ?thesis by (simp add: inner_radius_def outer_radius_def)
qed


lemma ring_map_is_ring: "is_ring (ring_map w h) w h"
proof -
  have "tiles (ring_map w h) =
      map (\<lambda>y. map (\<lambda>x. createTile [1 \<mapsto> wall_definition]
                          (if open_floor w h (int x) (int y) then 0 else 1)) [0..<w]) [0..<h]"
    by (simp add: ring_map_def new_Map_def initializeTiles_def ring_data_def comp_def)
  then show ?thesis
    by (simp add: is_ring_def grid_dims_def list_all_length createTile_def empty_tile_def
        tile_of_definition_def wall_definition_def)
qed

lemma example_map_ring: "example_map = ring_map 4 4"
proof -
  have "[0..<4] = [0, 1, 2, 3]" by code_simp
  then show ?thesis
    by (simp add: example_map_def ring_map_def ring_data_def open_floor_def)
qed

lemma example_map_is_ring: "is_ring example_map 4 4"
  unfolding example_map_ring by (rule ring_map_is_ring)

lemma ten_rays_Renderer_fields:
  "TILE_SIZE ten_rays_Renderer = 64" "MAX_RAY_DISTANCE ten_rays_Renderer = 1000"
  "FOV ten_rays_Renderer = pi / 3" "NUM_RAYS ten_rays_Renderer = 10"
  by (simp_all add: ten_rays_Renderer_def new_Renderer_def no_options_def nullish_def)

lemma inner_radius_4x4: "TILE_SIZE R = 64 \<Longrightarrow> inner_radius R 4 4 < 1000"
proof -
  assume ts: "TILE_SIZE R = 64"
  have "sqrt 2 < 2" by (rule real_less_lsqrt) simp_all
  with ts show ?thesis by (simp add: inner_radius_def)
qed

text \<open>
  C5 (as the code has it).  Let the grid be a ring: \<open>w\<close> by \<open>h\<close> tiles, at least 3 each
  way, solid exactly on its border.  Let the viewer stand at its centre, the tile size
  be at least one step, and \<open>MAX_RAY_DISTANCE\<close> exceed the distance from the centre to
  the corners of the open floor.  Then a ray cast at any angle reports a solid tile, at
  a distance of at most that corner distance plus one step, which is less than the
  distance to the ring's outer corners plus one step.  In particular, in the 4 by 4 grid
  with solid border, viewer at the centre facing angle 0, field of view \<open>\<pi>/3\<close> and 10
  rays, \<open>render\<close> casts 10 rays and each of them reports a tile.
\<close>

theorem ring_rays_hit:
  "(is_ring m w h \<and> 3 \<le> w \<and> 3 \<le> h \<and> 1 \<le> TILE_SIZE R \<and>
      inner_radius R w h < MAX_RAY_DISTANCE R \<longrightarrow>
      (\<exists>t. tile (castRay R a (centre_player R w h f) m) = Some t \<and> tile_isSolid t) \<and>
      distance (castRay R a (centre_player R w h f) m) \<le> inner_radius R w h + 1 \<and>
      distance (castRay R a (centre_player R w h f) m) < outer_radius R w h + 1) \<and>
   is_ring example_map 4 4 \<and>
   FOV ten_rays_Renderer = pi / 3 \<and>
   length (render_columns ten_rays_Renderer
             \<lparr>player_x = 128, player_y = 128, player_angle = 0\<rparr> example_map) = 10 \<and>
   (\<forall>c \<in> set (render_columns ten_rays_Renderer
                 \<lparr>player_x = 128, player_y = 128, player_angle = 0\<rparr> example_map).
      tile (col_hit c) \<noteq> None)"
proof (intro conjI impI ballI)
  assume a: "is_ring m w h \<and> 3 \<le> w \<and> 3 \<le> h \<and> 1 \<le> TILE_SIZE R \<and>
      inner_radius R w h < MAX_RAY_DISTANCE R"
  then have ring: "is_ring m w h" and w: "3 \<le> w" and h: "3 \<le> h" and ts: "1 \<le> TILE_SIZE R"
    and reach: "inner_radius R w h < MAX_RAY_DISTANCE R" by simp_all
  from ring_hit [OF ring w h ts reach, of a f]
  obtain j t where j: "real j \<le> inner_radius R w h + 1" and solid: "tile_isSolid t"
    and c: "castRay R a (centre_player R w h f) m =
             \<lparr>distance = real j, hitX = sampleX R (centre_player R w h f) a j,
              hitY = sampleY R (centre_player R w h f) a j, tile = Some t\<rparr>"
    by blast
  from c solid show "\<exists>t. tile (castRay R a (centre_player R w h f) m) = Some t \<and> tile_isSolid t"
    by simp
  from c j show d: "distance (castRay R a (centre_player R w h f) m) \<le> inner_radius R w h + 1"
    by simp
  from w h ts have "inner_radius R w h < outer_radius R w h"
    by (intro inner_below_outer) simp_all
  with d show "distance (castRay R a (centre_player R w h f) m) < outer_radius R w h + 1"
    by simp
next
  show "is_ring example_map 4 4" by (rule example_map_is_ring)
  show "FOV ten_rays_Renderer = pi / 3" by (simp add: ten_rays_Renderer_fields)
  show "length (render_columns ten_rays_Renderer
             \<lparr>player_x = 128, player_y = 128, player_angle = 0\<rparr> example_map) = 10"
    by (simp add: render_columns_def ten_rays_Renderer_fields)
next
  fix c
  assume "c \<in> set (render_columns ten_rays_Renderer
                 \<lparr>player_x = 128, player_y = 128, player_angle = 0\<rparr> example_map)"
  then obtain i where c: "c = render_column ten_rays_Renderer
      \<lparr>player_x = 128, player_y = 128, player_angle = 0\<rparr> example_map i"
    by (auto simp add: render_columns_def)
  have p: "\<lparr>player_x = 128, player_y = 128, player_angle = 0\<rparr> = centre_player ten_rays_Renderer 4 4 0"
    by (simp add: centre_player_def ten_rays_Renderer_fields)
  have "inner_radius ten_rays_Renderer 4 4 < MAX_RAY_DISTANCE ten_rays_Renderer"
    using inner_radius_4x4 [of ten_rays_Renderer] by (simp add: ten_rays_Renderer_fields)
  moreover have "1 \<le> TILE_SIZE ten_rays_Renderer" by (simp add: ten_rays_Renderer_fields)
  ultimately obtain j t where "castRay ten_rays_Renderer
        (rayAngle ten_rays_Renderer (centre_player ten_rays_Renderer 4 4 0) i)
        (centre_player ten_rays_Renderer 4 4 0) example_map =
      \<lparr>distance = real j,
       hitX = sampleX ten_rays_Renderer (centre_player ten_rays_Renderer 4 4 0)
                (rayAngle ten_rays_Renderer (centre_player ten_rays_Renderer 4 4 0) i) j,
       hitY = sampleY ten_rays_Renderer (centre_player ten_rays_Renderer 4 4 0)
                (rayAngle ten_rays_Renderer (centre_player ten_rays_Renderer 4 4 0) i) j,
       tile = Some t\<rparr>"
    using ring_hit [OF example_map_is_ring, of ten_rays_Renderer
        "rayAngle ten_rays_Renderer (centre_player ten_rays_Renderer 4 4 0) i" 0]
    by auto
  then show "tile (col_hit c) \<noteq> None"
    unfolding c p by (simp add: render_column_def Let_def)
qed

theorem ring_rays_hit_witness:
  "is_ring example_map 4 4 \<and> 1 \<le> TILE_SIZE default_Renderer \<and>
   inner_radius default_Renderer 4 4 < MAX_RAY_DISTANCE default_Renderer \<and>
   (\<exists>t. tile (castRay default_Renderer (pi / 4) (centre_player default_Renderer 4 4 0) example_map)
          = Some t \<and> tile_isSolid t) \<and>
   distance (castRay default_Renderer (pi / 4) (centre_player default_Renderer 4 4 0) example_map)
     \<le> inner_radius default_Renderer 4 4 + 1"
proof -
  have r: "inner_radius default_Renderer 4 4 < MAX_RAY_DISTANCE default_Renderer"
    using inner_radius_4x4 [of default_Renderer] by (simp add: default_Renderer_fields)
  have ts: "1 \<le> TILE_SIZE default_Renderer" by (simp add: default_Renderer_fields)
  show ?thesis
    using ring_rays_hit [where m = example_map and w = 4 and h = 4 and R = default_Renderer
        and a = "pi / 4" and f = 0] r ts example_map_is_ring
    by simp
qed

text \<open>
  C5 as stated fails for a ring the rays cannot reach: in a 34 by 34 ring with the
  default tile size 64 and distance limit 1000, the ray cast at angle 0 from the centre
  is still over open floor after 1000 steps and reports no tile.
\<close>

theorem ring_rays_hit_counterexample:
  "is_ring (ring_map 34 34) 34 34 \<and>
   tile (castRay default_Renderer 0 (centre_player default_Renderer 34 34 0) (ring_map 34 34)) = None"
proof -
  let ?p = "centre_player default_Renderer 34 34 0"
  have nz: "TILE_SIZE default_Renderer \<noteq> 0" by (simp add: default_Renderer_fields)
  have miss: "\<forall>k. 0 < k \<and> real k - 1 < MAX_RAY_DISTANCE default_Renderer \<longrightarrow>
      \<not> solid_at default_Renderer (ring_map 34 34) ?p 0 k"
  proof (intro allI impI)
    fix k :: nat
    assume "0 < k \<and> real k - 1 < MAX_RAY_DISTANCE default_Renderer"
    then have k: "real k \<le> 1000" by (simp add: default_Renderer_fields)
    have x: "sampleX default_Renderer ?p 0 k = 17 + real k / 64"
      and y: "sampleY default_Renderer ?p 0 k = 17"
      by (simp_all add: centre_sample [OF nz] default_Renderer_fields)
    from k have "17 \<le> \<lfloor>17 + real k / 64\<rfloor>" "\<lfloor>17 + real k / 64\<rfloor> \<le> 32" by linarith+
    then have "open_floor 34 34 \<lfloor>sampleX default_Renderer ?p 0 k\<rfloor> \<lfloor>sampleY default_Renderer ?p 0 k\<rfloor>"
      unfolding x y by (simp add: open_floor_def)
    with ring_map_is_ring show "\<not> solid_at default_Renderer (ring_map 34 34) ?p 0 k"
      by (rule ring_floor_not_solid)
  qed
  from castRay_miss_tile_distance(1) [OF miss] ring_map_is_ring show ?thesis by simp
qed

section \<open>Properties of the colour strings\<close>

lemma digit_char_digit:
  assumes "d < 10"
  shows "is_digit (digit_char d)" and "digit_value (digit_char d) = d"
proof -
  have "\<forall>d \<in> set [0..<10]. is_digit (digit_char d) \<and> digit_value (digit_char d) = d"
    by code_simp
  with assms show "is_digit (digit_char d)" and "digit_value (digit_char d) = d" by simp_all
qed

lemma digits_all_digit: "\<forall>c \<in> set (digits n). is_digit c"
proof (induction n rule: digits.induct)
  case (1 n)
  show ?case
  proof (cases "n < 10")
    case True
    then show ?thesis by (subst digits.simps) (simp add: digit_char_digit)
  next
    case False
    with "1.IH" have "\<forall>c \<in> set (digits (n div 10)). is_digit c" by simp
    with False show ?thesis by (subst digits.simps) (simp add: digit_char_digit)
  qed
qed

lemma digits_not_Nil: "digits n \<noteq> []"
  by (subst digits.simps) simp

lemma digits_value: "foldl (\<lambda>n c. 10 * n + digit_value c) 0 (digits n) = n"
proof (induction n rule: digits.induct)
  case (1 n)
  show ?case
  proof (cases "n < 10")
    case True
    then show ?thesis by (subst digits.simps) (simp add: digit_char_digit)
  next
    case False
    with "1.IH" have "foldl (\<lambda>n c. 10 * n + digit_value c) 0 (digits (n div 10)) = n div 10"
      by simp
    with False show ?thesis by (subst digits.simps) (simp add: digit_char_digit)
  qed
qed

lemma parseInt_digits: "parseInt (digits n) = int n"
  by (simp add: parseInt_def digits_value)

lemma takeWhile_digits:
  assumes "\<not> is_digit c"
  shows "takeWhile is_digit (digits n @ c # rest) = digits n"
    and "dropWhile is_digit (digits n @ c # rest) = c # rest"
  using assms digits_all_digit [of n]
  by (simp_all add: takeWhile_append2 dropWhile_append2)


lemma digit_not_space: "is_digit c \<Longrightarrow> \<not> is_space c"
  by (auto simp add: is_digit_def is_space_def)

lemma dropWhile_space_digits: "dropWhile is_space (digits n @ rest) = digits n @ rest"
proof (cases "digits n")
  case Nil
  with digits_not_Nil show ?thesis by simp
next
  case (Cons c cs)
  with digits_all_digit [of n] have "is_digit c" by simp
  then have "\<not> is_space c" by (rule digit_not_space)
  with Cons show ?thesis by simp
qed

lemma separators_not_digit: "\<not> is_digit CHR '',''" "\<not> is_digit CHR '')''"
  by (simp_all add: is_digit_def)

lemma space_is_space: "is_space CHR '' ''"
  by (simp add: is_space_def)

lemma match_rgb_spaced:
  "match_rgb (''rgb('' @ digits r @ '', '' @ digits g @ '', '' @ digits b @ '')'') =
     Some (digits r, digits g, digits b)"
  by (simp add: match_rgb_here_def takeWhile_digits separators_not_digit space_is_space
      dropWhile_space_digits digits_not_Nil Let_def)

lemma match_rgb_plain:
  "match_rgb (''rgb('' @ digits r @ '','' @ digits g @ '','' @ digits b @ '')'') =
     Some (digits r, digits g, digits b)"
  by (simp add: match_rgb_here_def takeWhile_digits separators_not_digit
      dropWhile_space_digits digits_not_Nil Let_def)

lemma parse_color_spaced:
  "parse_color (''rgb('' @ digits r @ '', '' @ digits g @ '', '' @ digits b @ '')'') =
     (int r, int g, int b)"
  by (simp only: parse_color_def match_rgb_spaced option.case prod.case parseInt_digits)

lemma parse_color_plain:
  "parse_color (''rgb('' @ digits r @ '','' @ digits g @ '','' @ digits b @ '')'') =
     (int r, int g, int b)"
  by (simp only: parse_color_def match_rgb_plain option.case prod.case parseInt_digits)

lemma parse_color_hex: "parse_color ''#ffffff'' = (255, 255, 255)"
  by (simp add: parse_color_def match_rgb_here_def)

lemma parse_color_nonneg:
  "parse_color s = (r, g, b) \<Longrightarrow> 0 \<le> r \<and> 0 \<le> g \<and> 0 \<le> b"
  by (auto simp add: parse_color_def parseInt_def split: option.splits)

lemma number_string_nat: "number_string (int n) = digits n"
  by (simp add: number_string_def)

subsection \<open>Reading a pixel\<close>

lemma nearest_in_clamp:
  assumes "0 < n"
  shows "max 0 (min x (int n - 1)) = int (nearest_in n x)" and "nearest_in n x < n"
  using assms by (auto simp add: nearest_in_def)

lemma pixel_index_in_range:
  fixes px py w h c :: nat
  assumes "px < w" and "py < h" and "c < 4"
  shows "(py * w + px) * 4 + c < 4 * w * h"
proof -
  from assms(1) have "py * w + px < py * w + w" by simp
  also have "\<dots> = Suc py * w" by simp
  also from assms(2) have "\<dots> \<le> h * w" by (intro mult_le_mono1) simp
  finally have "py * w + px < h * w" .
  with assms(3) show ?thesis by (simp add: algebra_simps)
qed

lemma data_at_nat: "i < length (img_data td) \<Longrightarrow> data_at td (int i) = Some (img_data td ! i)"
  by (simp add: data_at_def)

lemma data_at_pixel:
  assumes v: "valid_ImageData td" and c: "c < 4"
  shows "data_at td ((int (nearest_in (img_height td) y) * int (img_width td)
           + int (nearest_in (img_width td) x)) * 4 + int c) =
         Some (pixel_channel td (nearest_in (img_width td) x) (nearest_in (img_height td) y) c)"
proof -
  let ?px = "nearest_in (img_width td) x" and ?py = "nearest_in (img_height td) y"
  from v have w: "0 < img_width td" and h: "0 < img_height td"
    and len: "length (img_data td) = 4 * img_width td * img_height td"
    by (simp_all add: valid_ImageData_def)
  have r: "(?py * img_width td + ?px) * 4 + c < length (img_data td)"
    unfolding len using nearest_in_clamp(2) [OF w] nearest_in_clamp(2) [OF h] c
    by (rule pixel_index_in_range)
  have e: "(int ?py * int (img_width td) + int ?px) * 4 + int c
      = int ((?py * img_width td + ?px) * 4 + c)" by simp
  have "data_at td (int ((?py * img_width td + ?px) * 4 + c)) =
      Some (img_data td ! ((?py * img_width td + ?px) * 4 + c))"
    using r by (rule data_at_nat)
  then show ?thesis by (simp only: e pixel_channel_def)
qed

lemma getTextureColor_valid:
  assumes "textureData tm name = Some td" and "valid_ImageData td"
  shows "getTextureColor tm name x y =
     ''rgb('' @ digits (pixel_channel td (nearest_in (img_width td) x) (nearest_in (img_height td) y) 0)
       @ '', '' @ digits (pixel_channel td (nearest_in (img_width td) x) (nearest_in (img_height td) y) 1)
       @ '', '' @ digits (pixel_channel td (nearest_in (img_width td) x) (nearest_in (img_height td) y) 2)
       @ '')''"
proof -
  from assms(2) have w: "0 < img_width td" and h: "0 < img_height td"
    by (simp_all add: valid_ImageData_def)
  have a: "max 0 (min x (int (img_width td) - 1)) = int (nearest_in (img_width td) x)"
    using w by (rule nearest_in_clamp)
  have b: "max 0 (min y (int (img_height td) - 1)) = int (nearest_in (img_height td) y)"
    using h by (rule nearest_in_clamp)
  from data_at_pixel [OF assms(2), of 0 y x] data_at_pixel [OF assms(2), of 1 y x]
    data_at_pixel [OF assms(2), of 2 y x]
  show ?thesis
    by (simp add: getTextureColor_def assms(1) a b Let_def template_value_def)
qed


text \<open>
  C10.  A texture name without decoded data yields the fallback \<open>#ffffff\<close> (white).
  For a stored image (positive width and height, four bytes per pixel) and any integer
  coordinates, each coordinate is clamped to the nearest one inside the image (0 below,
  the last column or row above, itself inside), the three bytes read lie inside the
  pixel buffer, and the result is the colour string of the pixel at the clamped
  coordinates.  The function is total: it never fails.
\<close>

theorem getTextureColor_clamps:
  "(textureData tm name = None \<longrightarrow> getTextureColor tm name x y = ''#ffffff'') \<and>
   (textureData tm name = Some td \<and> valid_ImageData td \<longrightarrow>
      (x < 0 \<longrightarrow> nearest_in (img_width td) x = 0) \<and>
      (int (img_width td) \<le> x \<longrightarrow> nearest_in (img_width td) x = img_width td - 1) \<and>
      (0 \<le> x \<and> x < int (img_width td) \<longrightarrow> int (nearest_in (img_width td) x) = x) \<and>
      (y < 0 \<longrightarrow> nearest_in (img_height td) y = 0) \<and>
      (int (img_height td) \<le> y \<longrightarrow> nearest_in (img_height td) y = img_height td - 1) \<and>
      (0 \<le> y \<and> y < int (img_height td) \<longrightarrow> int (nearest_in (img_height td) y) = y) \<and>
      nearest_in (img_width td) x < img_width td \<and>
      nearest_in (img_height td) y < img_height td \<and>
      (nearest_in (img_height td) y * img_width td + nearest_in (img_width td) x) * 4 + 2
        < length (img_data td) \<and>
      getTextureColor tm name x y =
        ''rgb('' @ digits (pixel_channel td (nearest_in (img_width td) x) (nearest_in (img_height td) y) 0)
          @ '', '' @ digits (pixel_channel td (nearest_in (img_width td) x) (nearest_in (img_height td) y) 1)
          @ '', '' @ digits (pixel_channel td (nearest_in (img_width td) x) (nearest_in (img_height td) y) 2)
          @ '')'')"
proof (intro conjI impI)
  assume "textureData tm name = None"
  then show "getTextureColor tm name x y = ''#ffffff''" by (simp add: getTextureColor_def)
next
  assume a: "textureData tm name = Some td \<and> valid_ImageData td"
  then have w: "0 < img_width td" and h: "0 < img_height td"
    and len: "length (img_data td) = 4 * img_width td * img_height td"
    by (simp_all add: valid_ImageData_def)
  show px: "nearest_in (img_width td) x < img_width td" using w by (rule nearest_in_clamp)
  show py: "nearest_in (img_height td) y < img_height td" using h by (rule nearest_in_clamp)
  show "(nearest_in (img_height td) y * img_width td + nearest_in (img_width td) x) * 4 + 2
        < length (img_data td)"
    unfolding len using px py by (rule pixel_index_in_range) simp
  from a show "getTextureColor tm name x y =
        ''rgb('' @ digits (pixel_channel td (nearest_in (img_width td) x) (nearest_in (img_height td) y) 0)
          @ '', '' @ digits (pixel_channel td (nearest_in (img_width td) x) (nearest_in (img_height td) y) 1)
          @ '', '' @ digits (pixel_channel td (nearest_in (img_width td) x) (nearest_in (img_height td) y) 2)
          @ '')''"
    by (intro getTextureColor_valid) simp_all
qed (simp_all add: nearest_in_def)

lemma two_pixels_valid: "valid_ImageData two_pixels"
  by (simp add: valid_ImageData_def two_pixels_def)

theorem getTextureColor_clamps_witness:
  "getTextureColor \<lparr>textureData = [''wall'' \<mapsto> two_pixels]\<rparr> ''brick'' 0 0 = ''#ffffff'' \<and>
   valid_ImageData two_pixels \<and>
   getTextureColor \<lparr>textureData = [''wall'' \<mapsto> two_pixels]\<rparr> ''wall'' 5 (- 3) = ''rgb(40, 50, 60)'' \<and>
   getTextureColor \<lparr>textureData = [''wall'' \<mapsto> two_pixels]\<rparr> ''wall'' (- 1) 7 = ''rgb(10, 20, 30)''"
  using getTextureColor_clamps [where tm = "\<lparr>textureData = [''wall'' \<mapsto> two_pixels]\<rparr>"
      and name = "''brick''" and x = 0 and y = 0]
    getTextureColor_clamps [where tm = "\<lparr>textureData = [''wall'' \<mapsto> two_pixels]\<rparr>"
      and name = "''wall''" and x = 5 and y = "- 3" and td = two_pixels]
    getTextureColor_clamps [where tm = "\<lparr>textureData = [''wall'' \<mapsto> two_pixels]\<rparr>"
      and name = "''wall''" and x = "- 1" and y = 7 and td = two_pixels]
    two_pixels_valid
  by (simp add: nearest_in_def pixel_channel_def two_pixels_def digits.simps digit_char_def)

lemma fogFactor_near: "d \<le> 300 \<Longrightarrow> fogFactor d = 0"
  by (simp add: fogFactor_def Let_def max_def min_def)

lemma fogFactor_far: "700 \<le> d \<Longrightarrow> fogFactor d = 1"
  by (simp add: fogFactor_def Let_def max_def min_def)

lemma fogFactor_between: "300 \<le> d \<Longrightarrow> d \<le> 700 \<Longrightarrow> fogFactor d = (d - 300) / 400"
  by (simp add: fogFactor_def Let_def max_def min_def)

text \<open>The string \<^verbatim>\<open>getWallColor\<close> prints for three channel values.\<close>

lemma getWallColor_textured:
  assumes "tile_texture t = Some tx" and "tx \<noteq> []"
    and "parse_color (Map_getTextureColor m (tile_name t) x y) = (r, g, b)"
  shows "getWallColor R (Some t) x y m d =
     ''rgb('' @ number_string (round (real_of_int r * (1 - fogFactor d)
                 + rgb_r (DEFAULT_FOG_COLOR R) * fogFactor d))
       @ '','' @ number_string (round (real_of_int g * (1 - fogFactor d)
                 + rgb_g (DEFAULT_FOG_COLOR R) * fogFactor d))
       @ '','' @ number_string (round (real_of_int b * (1 - fogFactor d)
                 + rgb_b (DEFAULT_FOG_COLOR R) * fogFactor d))
       @ '')''"
  using assms by (simp add: getWallColor_def fogFactor_def Let_def)

lemma getWallColor_near:
  assumes "tile_texture t = Some tx" and "tx \<noteq> []"
    and "parse_color (Map_getTextureColor m (tile_name t) x y) = (r, g, b)"
    and "d \<le> 300"
  shows "getWallColor R (Some t) x y m d =
     ''rgb('' @ digits (nat r) @ '','' @ digits (nat g) @ '','' @ digits (nat b) @ '')''"
proof -
  from parse_color_nonneg [OF assms(3)] have "0 \<le> r" "0 \<le> g" "0 \<le> b" by simp_all
  then have "number_string r = digits (nat r)" "number_string g = digits (nat g)"
    "number_string b = digits (nat b)"
    by (simp_all add: number_string_def)
  then show ?thesis
    by (simp add: getWallColor_textured [OF assms(1,2,3)] fogFactor_near [OF assms(4)])
qed

lemma getWallColor_far:
  assumes "tile_texture t = Some tx" and "tx \<noteq> []" and "700 \<le> d"
  shows "getWallColor R (Some t) x y m d =
     ''rgb('' @ number_string (round (rgb_r (DEFAULT_FOG_COLOR R)))
       @ '','' @ number_string (round (rgb_g (DEFAULT_FOG_COLOR R)))
       @ '','' @ number_string (round (rgb_b (DEFAULT_FOG_COLOR R))) @ '')''"
proof -
  obtain r g b where p: "parse_color (Map_getTextureColor m (tile_name t) x y) = (r, g, b)"
    by (cases "parse_color (Map_getTextureColor m (tile_name t) x y)") auto
  show ?thesis
    by (simp add: getWallColor_textured [OF assms(1,2) p] fogFactor_far [OF assms(3)])
qed


text \<open>
  C6 (as the code has it).  The fog factor is \<open>clamp((distance - 300) / (700 - 300), 0, 1)\<close>:
  0 up to distance 300, 1 from distance 700 on, and \<open>(distance - 300) / 400\<close> in between.
  For a tile with a non-empty texture name and the channels \<open>(r, g, b)\<close> read from the
  sampled texture colour, \<open>getWallColor\<close> prints, at every distance, each channel
  blended with the fog colour by that factor and rounded: between 300 and 700 the
  blend \<open>c * (1 - (distance - 300) / 400) + fog * (distance - 300) / 400\<close> is linear in the
  distance, up to 300 (so at 0) the colour is the sampled one (the pixel sampled, when
  the texture is loaded), and from 700 on it is the fog colour rounded to whole
  channels, hence the fog colour itself when its channels are whole numbers.  For a tile
  without a texture name, or with the empty one, the wall colour is \<open>#ffffff\<close> at every
  distance: nothing is sampled and no fog is blended in.
\<close>

theorem getWallColor_fog:
  "fogFactor d = max 0 (min 1 ((d - 300) / (700 - 300))) \<and>
   (d \<le> 300 \<longrightarrow> fogFactor d = 0) \<and>
   (700 \<le> d \<longrightarrow> fogFactor d = 1) \<and>
   (300 \<le> d \<and> d \<le> 700 \<longrightarrow> fogFactor d = (d - 300) / 400) \<and>
   (tile_texture t = Some tx \<and> tx \<noteq> [] \<longrightarrow>
      (parse_color (Map_getTextureColor m (tile_name t) x y) = (r, g, b) \<longrightarrow>
         getWallColor R (Some t) x y m d =
           ''rgb('' @ number_string (round (real_of_int r * (1 - max 0 (min 1 ((d - 300) / (700 - 300))))
                       + rgb_r (DEFAULT_FOG_COLOR R) * max 0 (min 1 ((d - 300) / (700 - 300)))))
             @ '','' @ number_string (round (real_of_int g * (1 - max 0 (min 1 ((d - 300) / (700 - 300))))
                       + rgb_g (DEFAULT_FOG_COLOR R) * max 0 (min 1 ((d - 300) / (700 - 300)))))
             @ '','' @ number_string (round (real_of_int b * (1 - max 0 (min 1 ((d - 300) / (700 - 300))))
                       + rgb_b (DEFAULT_FOG_COLOR R) * max 0 (min 1 ((d - 300) / (700 - 300)))))
             @ '')'' \<and>
         (300 \<le> d \<and> d \<le> 700 \<longrightarrow>
            getWallColor R (Some t) x y m d =
              ''rgb('' @ number_string (round (real_of_int r * (1 - (d - 300) / 400)
                          + rgb_r (DEFAULT_FOG_COLOR R) * ((d - 300) / 400)))
                @ '','' @ number_string (round (real_of_int g * (1 - (d - 300) / 400)
                          + rgb_g (DEFAULT_FOG_COLOR R) * ((d - 300) / 400)))
                @ '','' @ number_string (round (real_of_int b * (1 - (d - 300) / 400)
                          + rgb_b (DEFAULT_FOG_COLOR R) * ((d - 300) / 400)))
                @ '')'') \<and>
         (d \<le> 300 \<longrightarrow>
            getWallColor R (Some t) x y m d =
              ''rgb('' @ digits (nat r) @ '','' @ digits (nat g) @ '','' @ digits (nat b) @ '')'')) \<and>
      parse_color (getWallColor R (Some t) x y m 0) =
        parse_color (Map_getTextureColor m (tile_name t) x y) \<and>
      (textureData (textureManager m) (tile_name t) = Some td \<and> valid_ImageData td \<longrightarrow>
         getWallColor R (Some t) x y m 0 =
           ''rgb('' @ digits (pixel_channel td (nearest_in (img_width td) x) (nearest_in (img_height td) y) 0)
             @ '','' @ digits (pixel_channel td (nearest_in (img_width td) x) (nearest_in (img_height td) y) 1)
             @ '','' @ digits (pixel_channel td (nearest_in (img_width td) x) (nearest_in (img_height td) y) 2)
             @ '')'') \<and>
      (700 \<le> d \<longrightarrow>
         getWallColor R (Some t) x y m d =
           ''rgb('' @ number_string (round (rgb_r (DEFAULT_FOG_COLOR R)))
             @ '','' @ number_string (round (rgb_g (DEFAULT_FOG_COLOR R)))
             @ '','' @ number_string (round (rgb_b (DEFAULT_FOG_COLOR R))) @ '')'') \<and>
      (700 \<le> d \<and> rgb_r (DEFAULT_FOG_COLOR R) = of_int fr \<and>
         rgb_g (DEFAULT_FOG_COLOR R) = of_int fg \<and> rgb_b (DEFAULT_FOG_COLOR R) = of_int fb \<longrightarrow>
         getWallColor R (Some t) x y m d =
           ''rgb('' @ number_string fr @ '','' @ number_string fg @ '','' @ number_string fb @ '')'')) \<and>
   (tile_texture t = None \<or> tile_texture t = Some [] \<longrightarrow>
      getWallColor R (Some t) x y m d = ''#ffffff'')"
proof (intro conjI impI)
  show "fogFactor d = max 0 (min 1 ((d - 300) / (700 - 300)))"
    by (simp add: fogFactor_def Let_def)
  show "fogFactor d = 0" if "d \<le> 300" using that by (rule fogFactor_near)
  show "fogFactor d = 1" if "700 \<le> d" using that by (rule fogFactor_far)
  show "fogFactor d = (d - 300) / 400" if "300 \<le> d \<and> d \<le> 700"
    using that by (simp add: fogFactor_between)
next
  assume tex: "tile_texture t = Some tx \<and> tx \<noteq> []"
    and p: "parse_color (Map_getTextureColor m (tile_name t) x y) = (r, g, b)"
  from tex have t1: "tile_texture t = Some tx" and t2: "tx \<noteq> []" by simp_all
  have f: "fogFactor d = max 0 (min 1 ((d - 300) / (700 - 300)))"
    by (simp add: fogFactor_def Let_def)
  show "getWallColor R (Some t) x y m d =
           ''rgb('' @ number_string (round (real_of_int r * (1 - max 0 (min 1 ((d - 300) / (700 - 300))))
                       + rgb_r (DEFAULT_FOG_COLOR R) * max 0 (min 1 ((d - 300) / (700 - 300)))))
             @ '','' @ number_string (round (real_of_int g * (1 - max 0 (min 1 ((d - 300) / (700 - 300))))
                       + rgb_g (DEFAULT_FOG_COLOR R) * max 0 (min 1 ((d - 300) / (700 - 300)))))
             @ '','' @ number_string (round (real_of_int b * (1 - max 0 (min 1 ((d - 300) / (700 - 300))))
                       + rgb_b (DEFAULT_FOG_COLOR R) * max 0 (min 1 ((d - 300) / (700 - 300)))))
             @ '')''"
    using getWallColor_textured [OF t1 t2 p, of R d] unfolding f .
next
  assume tex: "tile_texture t = Some tx \<and> tx \<noteq> []"
    and p: "parse_color (Map_getTextureColor m (tile_name t) x y) = (r, g, b)"
    and d: "300 \<le> d \<and> d \<le> 700"
  from tex have t1: "tile_texture t = Some tx" and t2: "tx \<noteq> []" by simp_all
  from d have f: "fogFactor d = (d - 300) / 400" by (simp add: fogFactor_between)
  show "getWallColor R (Some t) x y m d =
              ''rgb('' @ number_string (round (real_of_int r * (1 - (d - 300) / 400)
                          + rgb_r (DEFAULT_FOG_COLOR R) * ((d - 300) / 400)))
                @ '','' @ number_string (round (real_of_int g * (1 - (d - 300) / 400)
                          + rgb_g (DEFAULT_FOG_COLOR R) * ((d - 300) / 400)))
                @ '','' @ number_string (round (real_of_int b * (1 - (d - 300) / 400)
                          + rgb_b (DEFAULT_FOG_COLOR R) * ((d - 300) / 400)))
                @ '')''"
    using getWallColor_textured [OF t1 t2 p, of R d] unfolding f .
next
  assume tex: "tile_texture t = Some tx \<and> tx \<noteq> []"
    and p: "parse_color (Map_getTextureColor m (tile_name t) x y) = (r, g, b)"
    and d: "d \<le> 300"
  from tex have t1: "tile_texture t = Some tx" and t2: "tx \<noteq> []" by simp_all
  show "getWallColor R (Some t) x y m d =
      ''rgb('' @ digits (nat r) @ '','' @ digits (nat g) @ '','' @ digits (nat b) @ '')''"
    using t1 t2 p d by (rule getWallColor_near)
next
  assume tex: "tile_texture t = Some tx \<and> tx \<noteq> []"
  from tex have t1: "tile_texture t = Some tx" and t2: "tx \<noteq> []" by simp_all
  obtain r' g' b' where p: "parse_color (Map_getTextureColor m (tile_name t) x y) = (r', g', b')"
    by (cases "parse_color (Map_getTextureColor m (tile_name t) x y)") auto
  from parse_color_nonneg [OF p] have nn: "0 \<le> r'" "0 \<le> g'" "0 \<le> b'" by simp_all
  have c0: "getWallColor R (Some t) x y m 0 =
     ''rgb('' @ digits (nat r') @ '','' @ digits (nat g') @ '','' @ digits (nat b') @ '')''"
    using t1 t2 p by (rule getWallColor_near) simp
  show "parse_color (getWallColor R (Some t) x y m 0) =
        parse_color (Map_getTextureColor m (tile_name t) x y)"
    unfolding c0 p parse_color_plain using nn by simp
next
  assume tex: "tile_texture t = Some tx \<and> tx \<noteq> []"
    and td: "textureData (textureManager m) (tile_name t) = Some td \<and> valid_ImageData td"
  let ?c = "\<lambda>c. pixel_channel td (nearest_in (img_width td) x) (nearest_in (img_height td) y) c"
  from tex have t1: "tile_texture t = Some tx" and t2: "tx \<noteq> []" by simp_all
  from td have "Map_getTextureColor m (tile_name t) x y =
      ''rgb('' @ digits (?c 0) @ '', '' @ digits (?c 1) @ '', '' @ digits (?c 2) @ '')''"
    unfolding Map_getTextureColor_def by (intro getTextureColor_valid) simp_all
  then have "parse_color (Map_getTextureColor m (tile_name t) x y) = (int (?c 0), int (?c 1), int (?c 2))"
    by (simp only: parse_color_spaced)
  from getWallColor_near [OF t1 t2 this, of 0 R]
  show "getWallColor R (Some t) x y m 0 =
     ''rgb('' @ digits (?c 0) @ '','' @ digits (?c 1) @ '','' @ digits (?c 2) @ '')''"
    by simp
next
  assume tex: "tile_texture t = Some tx \<and> tx \<noteq> []" and far: "700 \<le> d"
  from tex have t1: "tile_texture t = Some tx" and t2: "tx \<noteq> []" by simp_all
  show "getWallColor R (Some t) x y m d =
           ''rgb('' @ number_string (round (rgb_r (DEFAULT_FOG_COLOR R)))
             @ '','' @ number_string (round (rgb_g (DEFAULT_FOG_COLOR R)))
             @ '','' @ number_string (round (rgb_b (DEFAULT_FOG_COLOR R))) @ '')''"
    using t1 t2 far by (rule getWallColor_far)
next
  assume tex: "tile_texture t = Some tx \<and> tx \<noteq> []"
    and far: "700 \<le> d \<and> rgb_r (DEFAULT_FOG_COLOR R) = of_int fr \<and>
         rgb_g (DEFAULT_FOG_COLOR R) = of_int fg \<and> rgb_b (DEFAULT_FOG_COLOR R) = of_int fb"
  from tex have t1: "tile_texture t = Some tx" and t2: "tx \<noteq> []" by simp_all
  from far have d: "700 \<le> d" by simp
  from far show "getWallColor R (Some t) x y m d =
      ''rgb('' @ number_string fr @ '','' @ number_string fg @ '','' @ number_string fb @ '')''"
    by (simp add: getWallColor_far [OF t1 t2 d])
next
  assume "tile_texture t = None \<or> tile_texture t = Some []"
  then show "getWallColor R (Some t) x y m d = ''#ffffff''"
    by (auto simp add: getWallColor_def)
qed

lemma textured_map_textures:
  "textureData (textureManager textured_map) ''wall'' = Some two_pixels"
  by (simp add: textured_map_def new_Map_def)

lemma wall_tile_fields:
  "tile_texture (tile_of_definition wall_definition) = Some ''brick''"
  "tile_name (tile_of_definition wall_definition) = ''wall''"
  by (simp_all add: tile_of_definition_def wall_definition_def)

lemma default_fog: "DEFAULT_FOG_COLOR default_Renderer = \<lparr>rgb_r = 7, rgb_g = 7, rgb_b = 7\<rparr>"
  by (simp add: default_Renderer_def new_Renderer_def no_options_def nullish_def)

lemma half_fog: "DEFAULT_FOG_COLOR half_fog_Renderer = \<lparr>rgb_r = 15 / 2, rgb_g = 7, rgb_b = 7\<rparr>"
  by (simp add: half_fog_Renderer_def new_Renderer_def no_options_def nullish_def)

lemma textured_map_sample:
  "Map_getTextureColor textured_map ''wall'' 1 0 = ''rgb(40, 50, 60)''"
  using getTextureColor_valid [OF textured_map_textures two_pixels_valid, of 1 0]
  by (simp add: Map_getTextureColor_def nearest_in_def pixel_channel_def two_pixels_def
      digits.simps digit_char_def)

lemma textured_map_channels:
  "parse_color (Map_getTextureColor textured_map ''wall'' 1 0) = (40, 50, 60)"
proof -
  have "Map_getTextureColor textured_map ''wall'' 1 0 =
      ''rgb('' @ digits 40 @ '', '' @ digits 50 @ '', '' @ digits 60 @ '')''"
    by (simp add: textured_map_sample digits.simps digit_char_def)
  then show ?thesis by (simp only: parse_color_spaced) simp
qed


theorem getWallColor_fog_witness:
  "fogFactor 100 = 0 \<and> fogFactor 500 = 1 / 2 \<and> fogFactor 800 = 1 \<and>
   Map_getTextureColor textured_map ''wall'' 1 0 = ''rgb(40, 50, 60)'' \<and>
   getWallColor default_Renderer (Some (tile_of_definition wall_definition)) 1 0 textured_map 0
     = ''rgb(40,50,60)'' \<and>
   getWallColor default_Renderer (Some (tile_of_definition wall_definition)) 1 0 textured_map 400
     = ''rgb(32,39,47)'' \<and>
   getWallColor default_Renderer (Some (tile_of_definition wall_definition)) 1 0 textured_map 500
     = ''rgb(24,29,34)'' \<and>
   getWallColor default_Renderer (Some (tile_of_definition wall_definition)) 1 0 textured_map 800
     = ''rgb(7,7,7)''"
proof -
  let ?t = "tile_of_definition wall_definition"
  note T = getWallColor_fog [where t = ?t and tx = "''brick''" and R = default_Renderer
      and x = 1 and y = 0 and m = textured_map and td = two_pixels
      and r = 40 and g = 50 and b = 60 and fr = 7 and fg = 7 and fb = 7]
  have tex: "tile_texture ?t = Some ''brick'' \<and> ''brick'' \<noteq> []"
    by (simp add: wall_tile_fields)
  have p: "parse_color (Map_getTextureColor textured_map (tile_name ?t) 1 0) = (40, 50, 60)"
    by (simp only: wall_tile_fields textured_map_channels)
  have f1: "fogFactor 100 = 0" using T [where d = 100] by simp
  have f2: "fogFactor 500 = 1 / 2" using T [where d = 500] by simp
  have f3: "fogFactor 800 = 1" using T [where d = 800] by simp
  have near: "(0::real) \<le> 300" by simp
  from T [where d = 0] tex p near
  have "getWallColor default_Renderer (Some ?t) 1 0 textured_map 0 =
      ''rgb('' @ digits (nat 40) @ '','' @ digits (nat 50) @ '','' @ digits (nat 60) @ '')''"
    by blast
  then have c0: "getWallColor default_Renderer (Some ?t) 1 0 textured_map 0 = ''rgb(40,50,60)''"
    by (simp add: digits.simps digit_char_def)
  have mid: "(300::real) \<le> 400 \<and> (400::real) \<le> 700" by simp
  from T [where d = 400] tex p mid
  have "getWallColor default_Renderer (Some ?t) 1 0 textured_map 400 =
      ''rgb('' @ number_string (round (real_of_int 40 * (1 - (400 - 300) / 400)
                          + rgb_r (DEFAULT_FOG_COLOR default_Renderer) * ((400 - 300) / 400)))
         @ '','' @ number_string (round (real_of_int 50 * (1 - (400 - 300) / 400)
                          + rgb_g (DEFAULT_FOG_COLOR default_Renderer) * ((400 - 300) / 400)))
         @ '','' @ number_string (round (real_of_int 60 * (1 - (400 - 300) / 400)
                          + rgb_b (DEFAULT_FOG_COLOR default_Renderer) * ((400 - 300) / 400)))
         @ '')''"
    by blast
  then have c400: "getWallColor default_Renderer (Some ?t) 1 0 textured_map 400 = ''rgb(32,39,47)''"
    by (simp add: default_fog round_def number_string_def digits.simps digit_char_def)
  have mid': "(300::real) \<le> 500 \<and> (500::real) \<le> 700" by simp
  from T [where d = 500] tex p mid'
  have "getWallColor default_Renderer (Some ?t) 1 0 textured_map 500 =
      ''rgb('' @ number_string (round (real_of_int 40 * (1 - (500 - 300) / 400)
                          + rgb_r (DEFAULT_FOG_COLOR default_Renderer) * ((500 - 300) / 400)))
         @ '','' @ number_string (round (real_of_int 50 * (1 - (500 - 300) / 400)
                          + rgb_g (DEFAULT_FOG_COLOR default_Renderer) * ((500 - 300) / 400)))
         @ '','' @ number_string (round (real_of_int 60 * (1 - (500 - 300) / 400)
                          + rgb_b (DEFAULT_FOG_COLOR default_Renderer) * ((500 - 300) / 400)))
         @ '')''"
    by blast
  then have c500: "getWallColor default_Renderer (Some ?t) 1 0 textured_map 500 = ''rgb(24,29,34)''"
    by (simp add: default_fog round_def number_string_def digits.simps digit_char_def)
  have far: "(700::real) \<le> 800 \<and> rgb_r (DEFAULT_FOG_COLOR default_Renderer) = of_int 7 \<and>
      rgb_g (DEFAULT_FOG_COLOR default_Renderer) = of_int 7 \<and>
      rgb_b (DEFAULT_FOG_COLOR default_Renderer) = of_int 7"
    by (simp add: default_fog)
  from T [where d = 800] tex far
  have "getWallColor default_Renderer (Some ?t) 1 0 textured_map 800 =
      ''rgb('' @ number_string 7 @ '','' @ number_string 7 @ '','' @ number_string 7 @ '')''"
    by blast
  then have c800: "getWallColor default_Renderer (Some ?t) 1 0 textured_map 800 = ''rgb(7,7,7)''"
    by (simp add: number_string_def digits.simps digit_char_def)
  from f1 f2 f3 textured_map_sample c0 c400 c500 c800 show ?thesis by blast
qed

text \<open>
  C6 as stated fails for a wall registered with the empty texture name: at distance 800
  its colour is \<open>#ffffff\<close>, which reads as (255, 255, 255), not the fog colour (7, 7, 7).
  It also fails for a fog colour that is not whole: with the red channel configured as
  7.5, the textured wall at distance 800 is printed with red 8.
\<close>

theorem getWallColor_untextured_counterexample:
  "getWallColor default_Renderer
     (Some (tile_of_definition (wall_definition\<lparr>def_texture := []\<rparr>))) 1 0 textured_map 800
     = ''#ffffff'' \<and>
   parse_color ''#ffffff'' = (255, 255, 255) \<and>
   DEFAULT_FOG_COLOR default_Renderer = \<lparr>rgb_r = 7, rgb_g = 7, rgb_b = 7\<rparr> \<and>
   getWallColor half_fog_Renderer (Some (tile_of_definition wall_definition)) 1 0 textured_map 800
     = ''rgb(8,7,7)'' \<and>
   rgb_r (DEFAULT_FOG_COLOR half_fog_Renderer) = 15 / 2"
proof -
  have a: "getWallColor default_Renderer
     (Some (tile_of_definition (wall_definition\<lparr>def_texture := []\<rparr>))) 1 0 textured_map 800
     = ''#ffffff''"
    by (simp add: getWallColor_def tile_of_definition_def wall_definition_def)
  have b: "getWallColor half_fog_Renderer (Some (tile_of_definition wall_definition)) 1 0 textured_map 800
     = ''rgb(8,7,7)''"
    using getWallColor_far [OF wall_tile_fields(1), of 800 half_fog_Renderer 1 0 textured_map]
    by (simp add: half_fog round_def number_string_def digits.simps digit_char_def)
  from a b parse_color_hex default_fog half_fog show ?thesis by simp
qed

end
